theory Spec2Isabelle
  imports Main "HOL-Library.List_Lexorder"
begin

section \<open>Strings\<close>

text \<open>
  A JavaScript string is a sequence of UTF-16 code units. A code unit is modelled as a
  natural number, so that the whitespace of \<open>String.prototype.trim\<close> (which includes
  U+00A0 and U+FEFF) and the byte-order mark written by the CSV export are ordinary
  elements. \<open>str\<close> embeds an ASCII literal of the source.
\<close>

type_synonym jsstring = "nat list"

definition str :: "string \<Rightarrow> jsstring" where
  "str s = map of_char s"

text \<open>Template-literal rendering of a non-negative integer (decimal digits).\<close>

function showNat :: "nat \<Rightarrow> jsstring" where
  "showNat n = (if n < 10 then [48 + n] else showNat (n div 10) @ [48 + n mod 10])"
  by pat_completeness auto
termination
  by (relation "measure (\<lambda>n. n)") auto

declare showNat.simps [simp del]

section \<open>Data model (types.ts)\<close>

datatype AssetStatus = AVAILABLE | BORROWED | MAINTENANCE | LOST

datatype TransactionType = BORROW | RETURN | MAINTENANCE_LOG

text \<open>The string values of the two enums.\<close>

fun statusValue :: "AssetStatus \<Rightarrow> jsstring" where
  "statusValue AVAILABLE = str ''Available''"
| "statusValue BORROWED = str ''Borrowed''"
| "statusValue MAINTENANCE = str ''Maintenance''"
| "statusValue LOST = str ''Lost''"

fun typeValue :: "TransactionType \<Rightarrow> jsstring" where
  "typeValue BORROW = str ''Borrow''"
| "typeValue RETURN = str ''Return''"
| "typeValue MAINTENANCE_LOG = str ''Maintenance''"

text \<open>
  Optional fields (\<open>currentHolder?\<close>, \<open>description?\<close>, \<open>customFeatures?\<close>, \<open>notes?\<close>)
  are options, \<open>None\<close> standing for \<open>undefined\<close>. A \<open>Record<string, string>\<close> is an
  association list in insertion order, looked up with \<open>map_of\<close>. That an object lists
  keys which are array indices before its other keys is not modelled; the keys are only
  looked up or sorted below.
\<close>

record Asset =
  id_asset :: jsstring
  name :: jsstring
  category :: jsstring
  model :: jsstring
  serialNumber :: jsstring
  purchaseDate :: jsstring
  status :: AssetStatus
  currentHolder :: "jsstring option"
  imageUrl :: jsstring
  qrCode :: jsstring
  description :: "jsstring option"
  customFeatures :: "(jsstring \<times> jsstring) list option"

record Transaction =
  id_tx :: jsstring
  assetId :: jsstring
  assetName :: jsstring
  userId :: jsstring
  userName :: jsstring
  type_tx :: TransactionType
  timestamp_tx :: int
  signatureUrl :: jsstring
  notes_tx :: "jsstring option"

text \<open>
  The state held by \<open>AppContent\<close> (App.tsx): the asset and transaction collections.
  The user and reservation collections are not touched by any operation below.
\<close>

record Store =
  assets :: "Asset list"
  transactions :: "Transaction list"

section \<open>Lifecycle transactions (App.tsx, handleTransaction)\<close>

text \<open>
  \<open>handleTransaction\<close> reads \<open>Math.random()\<close> twice and \<open>Date.now()\<close> once. The two
  floored random numbers \<open>r1\<close> (for the transaction id) and \<open>r2\<close> (for the mock user id)
  and the clock reading \<open>now\<close> are parameters. A missing asset is the early \<open>return\<close>.
\<close>

definition handleTransaction ::
  "nat \<Rightarrow> nat \<Rightarrow> int \<Rightarrow> jsstring \<Rightarrow> TransactionType \<Rightarrow> jsstring \<Rightarrow> jsstring \<Rightarrow>
   jsstring option \<Rightarrow> Store \<Rightarrow> Store" where
  "handleTransaction r1 r2 now aId ty uName signature nts st =
     (case find (\<lambda>a. id_asset a = aId) (assets st) of
        None \<Rightarrow> st
      | Some asset \<Rightarrow>
          let newTx = \<lparr> id_tx = str ''TX-'' @ showNat r1,
                        assetId = aId,
                        assetName = name asset,
                        userId = str ''U-'' @ showNat r2,
                        userName = uName,
                        type_tx = ty,
                        timestamp_tx = now,
                        signatureUrl = signature,
                        notes_tx = nts \<rparr>;
              updatedAssets = map (\<lambda>a.
                  if id_asset a = aId
                  then a\<lparr> status := (if ty = BORROW then BORROWED else AVAILABLE),
                          currentHolder := (if ty = BORROW then Some uName else None) \<rparr>
                  else a) (assets st)
          in st\<lparr> transactions := transactions st @ [newTx], assets := updatedAssets \<rparr>)"

section \<open>Seed data (constants.ts)\<close>

definition MOCK_ASSETS :: "Asset list" where
  "MOCK_ASSETS =
   [ \<lparr> id_asset = str ''AST-001'', name = str ''MacBook Pro 16\"'', category = str ''Laptop'',
       model = str ''M3 Max'', serialNumber = str ''FVFX1234K9'',
       purchaseDate = str ''2024-01-15'', status = AVAILABLE, currentHolder = None,
       imageUrl = str ''https://picsum.photos/400/300?random=1'', qrCode = str ''qr-ast-001'',
       description = Some (str ''High performance laptop.''),
       customFeatures = Some [(str ''Color'', str ''Space Gray''), (str ''RAM'', str ''64GB'')] \<rparr>,
     \<lparr> id_asset = str ''AST-002'', name = str ''Sony Alpha a7 IV'', category = str ''Camera'',
       model = str ''ILCE-7M4'', serialNumber = str ''SNY887221'',
       purchaseDate = str ''2023-11-20'', status = BORROWED,
       currentHolder = Some (str ''Alice Chen''),
       imageUrl = str ''https://picsum.photos/400/300?random=2'', qrCode = str ''qr-ast-002'',
       description = Some (str ''Full frame mirrorless.''),
       customFeatures = Some [(str ''Lens'', str ''24-70mm GM''), (str ''Warranty'', str ''Extended'')] \<rparr>,
     \<lparr> id_asset = str ''AST-003'', name = str ''DJI Mavic 3 Pro'', category = str ''Drone'',
       model = str ''Mavic 3'', serialNumber = str ''DJI998877'',
       purchaseDate = str ''2024-02-10'', status = MAINTENANCE, currentHolder = None,
       imageUrl = str ''https://picsum.photos/400/300?random=3'', qrCode = str ''qr-ast-003'',
       description = Some (str ''Triple camera drone.''), customFeatures = None \<rparr>,
     \<lparr> id_asset = str ''AST-004'', name = str ''Projector 4K'', category = str ''Office'',
       model = str ''Epson Pro'', serialNumber = str ''EPS445566'',
       purchaseDate = str ''2023-05-05'', status = AVAILABLE, currentHolder = None,
       imageUrl = str ''https://picsum.photos/400/300?random=4'', qrCode = str ''qr-ast-004'',
       description = Some (str ''Main meeting room projector.''),
       customFeatures = Some [(str ''Resolution'', str ''4K''), (str ''Mount'', str ''Ceiling'')] \<rparr>,
     \<lparr> id_asset = str ''AST-005'', name = str ''iPad Pro 12.9\"'', category = str ''Tablet'',
       model = str ''6th Gen'', serialNumber = str ''APP998811'',
       purchaseDate = str ''2024-03-01'', status = AVAILABLE, currentHolder = None,
       imageUrl = str ''https://picsum.photos/400/300?random=5'', qrCode = str ''qr-ast-005'',
       description = Some (str ''Design tablet.''),
       customFeatures = Some [(str ''Storage'', str ''1TB''), (str ''Connectivity'', str ''5G + Wi-Fi'')] \<rparr> ]"

text \<open>\<open>MOCK_TRANSACTIONS\<close> is built from \<open>Date.now()\<close> at module load, the parameter \<open>t0\<close>.\<close>

definition MOCK_TRANSACTIONS :: "int \<Rightarrow> Transaction list" where
  "MOCK_TRANSACTIONS t0 =
   [ \<lparr> id_tx = str ''TX-1001'', assetId = str ''AST-002'', assetName = str ''Sony Alpha a7 IV'',
       userId = str ''U001'', userName = str ''Alice Chen'', type_tx = BORROW,
       timestamp_tx = t0 - 86400000 * 2, signatureUrl = [],
       notes_tx = Some (str ''Project photoshoot'') \<rparr>,
     \<lparr> id_tx = str ''TX-1002'', assetId = str ''AST-003'', assetName = str ''DJI Mavic 3 Pro'',
       userId = str ''U002'', userName = str ''Bob Smith'', type_tx = MAINTENANCE_LOG,
       timestamp_tx = t0 - 86400000 * 5, signatureUrl = [],
       notes_tx = Some (str ''Propeller check'') \<rparr> ]"

definition initialStore :: "int \<Rightarrow> Store" where
  "initialStore t0 = \<lparr> assets = MOCK_ASSETS, transactions = MOCK_TRANSACTIONS t0 \<rparr>"

section \<open>The other store operations of App.tsx\<close>

definition handleAddAsset :: "Asset \<Rightarrow> Store \<Rightarrow> Store" where
  "handleAddAsset newAsset st = st\<lparr> assets := assets st @ [newAsset] \<rparr>"

definition handleBulkAddAssets :: "Asset list \<Rightarrow> Store \<Rightarrow> Store" where
  "handleBulkAddAssets newAssets st = st\<lparr> assets := assets st @ newAssets \<rparr>"

definition handleUpdateAsset :: "Asset \<Rightarrow> Store \<Rightarrow> Store" where
  "handleUpdateAsset updatedAsset st =
     st\<lparr> assets := map (\<lambda>a. if id_asset a = id_asset updatedAsset then updatedAsset else a)
                        (assets st) \<rparr>"

text \<open>
  \<open>new Map(updatedAssets.map(a => [a.id, a]))\<close>: a later entry replaces an earlier one
  with the same key, so the lookup runs over the reversed list.
\<close>

definition handleBulkUpdateAssets :: "Asset list \<Rightarrow> Store \<Rightarrow> Store" where
  "handleBulkUpdateAssets updatedAssets st =
     (let updateMap = map_of (rev (map (\<lambda>a. (id_asset a, a)) updatedAssets))
      in st\<lparr> assets := map (\<lambda>a. case updateMap (id_asset a) of Some u \<Rightarrow> u | None \<Rightarrow> a)
                            (assets st) \<rparr>)"

section \<open>Bulk edit (AdminView, saveBulkEdit)\<close>

text \<open>
  The form \<open>{ status?: AssetStatus | '', category?: string }\<close>. A status of \<open>''\<close> or
  \<open>undefined\<close> is \<open>None\<close>; the category keeps its string, \<open>None\<close> being \<open>undefined\<close>,
  and is applied when it is truthy (present and not empty).
\<close>

record BulkEditForm =
  status_form :: "AssetStatus option"
  category_form :: "jsstring option"

text \<open>The body of the \<open>forEach\<close> callback for one found asset: the copy and the flag.\<close>

definition applyBulkEdit :: "BulkEditForm \<Rightarrow> Asset \<Rightarrow> Asset \<times> bool" where
  "applyBulkEdit form original =
     (let (u1, c1) = (case status_form form of
                        Some s \<Rightarrow> (original\<lparr> status := s \<rparr>, True)
                      | None \<Rightarrow> (original, False));
          (u2, c2) = (case category_form form of
                        Some c \<Rightarrow> if c \<noteq> [] then (u1\<lparr> category := c \<rparr>, True) else (u1, c1)
                      | None \<Rightarrow> (u1, c1))
      in (u2, c2))"

text \<open>
  \<open>selectedAssetIds\<close> is a \<open>Set<string>\<close>, visited in insertion order: the list of its
  elements. The function returns the array \<open>updates\<close>.
\<close>

fun collectUpdates :: "BulkEditForm \<Rightarrow> Asset list \<Rightarrow> jsstring list \<Rightarrow> Asset list" where
  "collectUpdates form as [] = []"
| "collectUpdates form as (i # ids) =
     (case find (\<lambda>a. id_asset a = i) as of
        None \<Rightarrow> collectUpdates form as ids
      | Some original \<Rightarrow>
          (let (updated, changed) = applyBulkEdit form original
           in (if changed then [updated] else []) @ collectUpdates form as ids))"

text \<open>
  The result is the new store and the number shown by \<open>alert\<close> (\<open>None\<close> when no alert is
  raised). Closing the dialog and clearing the selection are not modelled.
\<close>

definition saveBulkEdit :: "BulkEditForm \<Rightarrow> jsstring list \<Rightarrow> Store \<Rightarrow> Store \<times> nat option" where
  "saveBulkEdit form selectedAssetIds st =
     (let updates = collectUpdates form (assets st) selectedAssetIds
      in if length updates > 0
         then (handleBulkUpdateAssets updates st, Some (length updates))
         else (st, None))"

section \<open>Notifications (AdminView, the effect on assets, transactions and lang)\<close>

datatype Lang = zh | en

datatype Severity = warning | critical

record Notification =
  id_ntf :: jsstring
  title :: jsstring
  message :: jsstring
  type_ntf :: Severity
  timestamp_ntf :: int

definition sevenDaysMs :: int where
  "sevenDaysMs = 7 * 24 * 60 * 60 * 1000"

text \<open>The object pushed for a lost asset; its \<open>Date.now()\<close> is the last argument.\<close>

definition lostAlert :: "Lang \<Rightarrow> Asset \<Rightarrow> int \<Rightarrow> Notification" where
  "lostAlert lang a ts =
     \<lparr> id_ntf = str ''lost-'' @ id_asset a,
       title = (if lang = zh then [0x8D44, 0x4EA7, 0x62A5, 0x5931, 0x63D0, 0x9192]
                else str ''Asset Lost Alert''),
       message = name a @ str '' ('' @ id_asset a @ str '') '' @
                 (if lang = zh
                  then [0x76EE, 0x524D, 0x72B6, 0x6001, 0x4E3A, 0x201C, 0x5DF2, 0x4E22, 0x5931, 0x201D]
                  else str ''is marked as Lost'') @ str ''.'',
       type_ntf = critical,
       timestamp_ntf = ts \<rparr>"

text \<open>
  \<open>transactions.filter(...).sort((x, y) => y.timestamp - x.timestamp)[0]\<close>: the sort is
  stable and descending in the timestamp, as \<open>sort_key\<close> on the negated timestamp is;
  \<open>[0]\<close> of an empty array is \<open>undefined\<close>.
\<close>

definition lastBorrowTx :: "Transaction list \<Rightarrow> Asset \<Rightarrow> Transaction option" where
  "lastBorrowTx txs a =
     (case sort_key (\<lambda>t. - timestamp_tx t)
             (filter (\<lambda>t. assetId t = id_asset a \<and> type_tx t = BORROW) txs) of
        [] \<Rightarrow> None
      | lastTx # _ \<Rightarrow> Some lastTx)"

definition overdueAlert :: "Lang \<Rightarrow> Asset \<Rightarrow> Transaction \<Rightarrow> int \<Rightarrow> Notification" where
  "overdueAlert lang a lastTx ts =
     \<lparr> id_ntf = str ''overdue-'' @ id_asset a,
       title = (if lang = zh then [0x8D85, 0x671F, 0x501F, 0x7528, 0x63D0, 0x9192]
                else str ''Overdue Alert''),
       message = name a @ str '' '' @ (if lang = zh then [0x5DF2, 0x88AB] else str ''held by'') @
                 str '' '' @ userName lastTx @ str '' '' @
                 (if lang = zh then [0x501F, 0x7528, 0x8D85, 0x8FC7, 0x37, 0x5929]
                  else str ''for >7 days'') @ str ''.'',
       type_ntf = warning,
       timestamp_ntf = ts \<rparr>"

text \<open>What the second loop pushes for one borrowed asset: nothing or one alert.\<close>

definition overdueFor :: "Lang \<Rightarrow> int \<Rightarrow> Transaction list \<Rightarrow> Asset \<Rightarrow> (int \<Rightarrow> Notification) list" where
  "overdueFor lang now txs a =
     (case lastBorrowTx txs a of
        None \<Rightarrow> []
      | Some lastTx \<Rightarrow>
          if now - timestamp_tx lastTx > sevenDaysMs then [overdueAlert lang a lastTx] else [])"

text \<open>
  The array \<open>newNotifications\<close>. \<open>now\<close> is the \<open>Date.now()\<close> read between the two loops;
  \<open>stamp k\<close> is the \<open>Date.now()\<close> read for the notification pushed at index \<open>k\<close>.
\<close>

definition deriveNotifications ::
  "Lang \<Rightarrow> int \<Rightarrow> (nat \<Rightarrow> int) \<Rightarrow> Asset list \<Rightarrow> Transaction list \<Rightarrow> Notification list" where
  "deriveNotifications lang now stamp as txs =
     (let lostAssets = filter (\<lambda>a. status a = LOST) as;
          pushed = map (lostAlert lang) lostAssets @
                   concat (map (overdueFor lang now txs) (filter (\<lambda>a. status a = BORROWED) as))
      in map (\<lambda>(k, mk). mk (stamp k)) (enumerate 0 pushed))"

text \<open>
  One run of the effect: \<open>setNotifications(newNotifications)\<close> replaces the previous
  state, whatever it was. \<open>runEffect\<close> runs it once per clock reading of a list.
\<close>

definition notificationsEffect ::
  "Lang \<Rightarrow> Store \<Rightarrow> int \<times> (nat \<Rightarrow> int) \<Rightarrow> Notification list \<Rightarrow> Notification list" where
  "notificationsEffect lang st clock previous =
     deriveNotifications lang (fst clock) (snd clock) (assets st) (transactions st)"

definition runEffect ::
  "Lang \<Rightarrow> Store \<Rightarrow> (int \<times> (nat \<Rightarrow> int)) list \<Rightarrow> Notification list \<Rightarrow> Notification list" where
  "runEffect lang st clocks initial = foldl (\<lambda>ns clock. notificationsEffect lang st clock ns) initial clocks"

section \<open>String operations used by the CSV codec\<close>

text \<open>\<open>Array.prototype.join\<close>.\<close>

fun join :: "jsstring \<Rightarrow> jsstring list \<Rightarrow> jsstring" where
  "join sep [] = []"
| "join sep [x] = x"
| "join sep (x # y # ys) = x @ sep @ join sep (y # ys)"

text \<open>
  \<open>String.prototype.split\<close> with a separator of one code unit: the result always has
  at least one element, and \<open>n\<close> separators give \<open>n + 1\<close> pieces.
\<close>

fun split :: "nat \<Rightarrow> jsstring \<Rightarrow> jsstring list" where
  "split c [] = [[]]"
| "split c (x # xs) =
     (if x = c then [] # split c xs
      else (case split c xs of
              [] \<Rightarrow> [[x]]
            | piece # pieces \<Rightarrow> (x # piece) # pieces))"

text \<open>
  The code units removed by \<open>String.prototype.trim\<close>: ECMAScript WhiteSpace (tab, VT,
  FF, space, U+00A0, U+FEFF and the Unicode space separators) and LineTerminator
  (LF, CR, U+2028, U+2029).
\<close>

definition isWhiteSpace :: "nat \<Rightarrow> bool" where
  "isWhiteSpace c \<longleftrightarrow>
     c = 0x09 \<or> c = 0x0A \<or> c = 0x0B \<or> c = 0x0C \<or> c = 0x0D \<or> c = 0x20 \<or> c = 0xA0 \<or>
     c = 0x1680 \<or> (0x2000 \<le> c \<and> c \<le> 0x200A) \<or> c = 0x2028 \<or> c = 0x2029 \<or>
     c = 0x202F \<or> c = 0x205F \<or> c = 0x3000 \<or> c = 0xFEFF"

definition trim :: "jsstring \<Rightarrow> jsstring" where
  "trim s = rev (dropWhile isWhiteSpace (rev (dropWhile isWhiteSpace s)))"

text \<open>
  \<open>s.replace(/^"|"$/g, '')\<close>: one double quote is removed at the start, if there is
  one, and one at the end of what follows, if there is one.
\<close>

definition stripQuotes :: "jsstring \<Rightarrow> jsstring" where
  "stripQuotes s =
     (let s1 = (case s of [] \<Rightarrow> [] | c # cs \<Rightarrow> if c = 0x22 then cs else s)
      in if s1 \<noteq> [] \<and> last s1 = 0x22 then butlast s1 else s1)"

section \<open>CSV export (AdminView, handleExportCSV)\<close>

text \<open>\<open>Object.keys\<close> of every \<open>customFeatures\<close>, collected in a \<open>Set\<close> and sorted.\<close>

definition getAllCustomFeatureKeys :: "Asset list \<Rightarrow> jsstring list" where
  "getAllCustomFeatureKeys as =
     sort (remdups (concat (map (\<lambda>a. case customFeatures a of
                                        None \<Rightarrow> []
                                      | Some fs \<Rightarrow> map fst fs) as)))"

text \<open>\<open>x || ''\<close> for an optional string.\<close>

definition orEmpty :: "jsstring option \<Rightarrow> jsstring" where
  "orEmpty v = (case v of None \<Rightarrow> [] | Some s \<Rightarrow> s)"

definition quoted :: "jsstring \<Rightarrow> jsstring" where
  "quoted s = [0x22] @ s @ [0x22]"

text \<open>
  \<open>a.customFeatures?.[key] || ''\<close> inside a template literal. An own key gives its
  value. A key the record does not have is looked up on \<open>Object.prototype\<close>: for the
  name of one of its members (\<open>constructor\<close>, \<open>toString\<close>, ...) the member is found and
  printed. \<open>inherited key\<close> is the text printed for such a name, which depends on the
  host, and \<open>None\<close> for every other key.
\<close>

definition featureValue :: "(jsstring \<Rightarrow> jsstring option) \<Rightarrow> Asset \<Rightarrow> jsstring \<Rightarrow> jsstring" where
  "featureValue inherited a key =
     (case customFeatures a of
        None \<Rightarrow> []
      | Some fs \<Rightarrow>
          (case map_of fs key of
             Some v \<Rightarrow> v
           | None \<Rightarrow> orEmpty (inherited key)))"

definition exportRow :: "(jsstring \<Rightarrow> jsstring option) \<Rightarrow> jsstring list \<Rightarrow> Asset \<Rightarrow> jsstring list" where
  "exportRow inherited featureHeaders a =
     (let featureValues = map (\<lambda>key. quoted (featureValue inherited a key)) featureHeaders
      in [ id_asset a,
           quoted (name a),
           category a,
           quoted (model a),
           serialNumber a,
           statusValue (status a),
           orEmpty (currentHolder a),
           purchaseDate a,
           quoted (orEmpty (description a)) ] @ featureValues)"

text \<open>
  The text after the \<open>data:text/csv;charset=utf-8,\<close> prefix of \<open>csvContent\<close>: the
  byte-order mark, the header line and the rows. \<open>t\<close> is the translation lookup of the
  current language; the feature columns come from all assets, the rows from the
  filtered ones.
\<close>

definition csvHeaders :: "(jsstring \<Rightarrow> jsstring) \<Rightarrow> jsstring list \<Rightarrow> jsstring list" where
  "csvHeaders t featureHeaders =
     [ t (str ''th_id''), t (str ''th_name''), t (str ''th_category''), str ''Model'', str ''SN'',
       t (str ''th_status''), t (str ''th_holder''), str ''Date'', str ''Desc'' ] @ featureHeaders"

definition csvText ::
  "(jsstring \<Rightarrow> jsstring option) \<Rightarrow> (jsstring \<Rightarrow> jsstring) \<Rightarrow> Asset list \<Rightarrow> Asset list \<Rightarrow> jsstring" where
  "csvText inherited t as filteredAssets =
     (let featureHeaders = getAllCustomFeatureKeys as;
          headers = csvHeaders t featureHeaders;
          rows = map (exportRow inherited featureHeaders) filteredAssets
      in [0xFEFF] @ join (str '','') headers @ str ''\<newline>'' @
         join (str ''\<newline>'') (map (join (str '','')) rows))"

text \<open>
  \<open>handleExportCSV\<close> returns early on an empty view; otherwise it hands \<open>csvContent\<close>,
  passed through \<open>encodeURI\<close>, to the browser as the target of a download link. The
  result is \<open>csvContent\<close>; the download itself is outside the model.
\<close>

definition handleExportCSV ::
  "(jsstring \<Rightarrow> jsstring option) \<Rightarrow> (jsstring \<Rightarrow> jsstring) \<Rightarrow> Asset list \<Rightarrow> Asset list \<Rightarrow>
   jsstring option" where
  "handleExportCSV inherited t as filteredAssets =
     (if length filteredAssets = 0 then None
      else Some (str ''data:text/csv;charset=utf-8,'' @ csvText inherited t as filteredAssets))"

section \<open>CSV import (AdminView, handleFileUpload)\<close>

text \<open>
  What one accepted row reads from its environment, by the index \<open>k\<close> of the row among
  the accepted ones: the floored \<open>Math.random() * 100000\<close> of the id, the date part of
  \<open>new Date().toISOString()\<close>, and the rendering of the \<open>Math.random()\<close> in the image URL.
\<close>

record ImportEnv =
  randomId :: "nat \<Rightarrow> nat"
  isoDate :: "nat \<Rightarrow> jsstring"
  randomImg :: "nat \<Rightarrow> jsstring"

text \<open>Array destructuring: a missing element is \<open>undefined\<close>.\<close>

definition element :: "'a list \<Rightarrow> nat \<Rightarrow> 'a option" where
  "element xs i = (if i < length xs then Some (xs ! i) else None)"

text \<open>\<open>x || d\<close> for an optional string.\<close>

definition orDefault :: "jsstring option \<Rightarrow> jsstring \<Rightarrow> jsstring" where
  "orDefault v d = (case v of None \<Rightarrow> d | Some s \<Rightarrow> if s = [] then d else s)"

definition rowFields :: "jsstring \<Rightarrow> jsstring list" where
  "rowFields line = map (\<lambda>s. stripQuotes (trim s)) (split 0x2C line)"

definition importedAsset :: "ImportEnv \<Rightarrow> nat \<Rightarrow> jsstring list \<Rightarrow> Asset" where
  "importedAsset env k cols =
     (let i = str ''AST-'' @ showNat (randomId env k)
      in \<lparr> id_asset = i,
           name = orEmpty (element cols 0),
           category = orDefault (element cols 1) (str ''General''),
           model = orDefault (element cols 2) (str ''Standard''),
           serialNumber = orDefault (element cols 3) (str ''N/A''),
           purchaseDate = isoDate env k,
           status = AVAILABLE,
           currentHolder = None,
           imageUrl = str ''https://picsum.photos/400/300?random='' @ randomImg env k,
           qrCode = str ''qr-'' @ i,
           description = Some (str ''CSV Import''),
           customFeatures = None \<rparr>)"

text \<open>
  The loop over \<open>lines[1 ..]\<close>, with the array \<open>newAssets\<close> as accumulator; the index of
  an accepted row is the length of \<open>newAssets\<close> when it is pushed.
\<close>

fun importLines :: "ImportEnv \<Rightarrow> Asset list \<Rightarrow> jsstring list \<Rightarrow> Asset list" where
  "importLines env newAssets [] = newAssets"
| "importLines env newAssets (l # ls) =
     (let line = trim l
      in if line \<noteq> []
         then (let cols = rowFields line
               in if orEmpty (element cols 0) \<noteq> []
                  then importLines env (newAssets @ [importedAsset env (length newAssets) cols]) ls
                  else importLines env newAssets ls)
         else importLines env newAssets ls)"

definition parseCSV :: "ImportEnv \<Rightarrow> jsstring \<Rightarrow> Asset list" where
  "parseCSV env content = importLines env [] (drop 1 (split 0x0A content))"

text \<open>
  The \<open>onload\<close> handler: the new store and the number shown by \<open>alert\<close> (\<open>None\<close> when
  nothing was accepted and nothing is committed).
\<close>

definition handleFileUpload :: "ImportEnv \<Rightarrow> jsstring \<Rightarrow> Store \<Rightarrow> Store \<times> nat option" where
  "handleFileUpload env content st =
     (let newAssets = parseCSV env content
      in if length newAssets > 0
         then (handleBulkAddAssets newAssets st, Some (length newAssets))
         else (st, None))"

section \<open>Snapshot for the AI summary (geminiService, analyzeAssetHealth)\<close>

record TransactionSummary =
  type_s :: jsstring
  asset_s :: jsstring
  date_s :: jsstring
  notes_s :: "jsstring option"

record DataSummary =
  totalAssets :: nat
  statusCounts :: "AssetStatus \<rightharpoonup> nat"
  recentTransactions :: "TransactionSummary list"

text \<open>The reducer \<open>acc[curr.status] = (acc[curr.status] || 0) + 1\<close>.\<close>

definition countStatus :: "(AssetStatus \<rightharpoonup> nat) \<Rightarrow> Asset \<Rightarrow> (AssetStatus \<rightharpoonup> nat)" where
  "countStatus acc cur =
     acc(status cur \<mapsto> (case acc (status cur) of None \<Rightarrow> 0 | Some n \<Rightarrow> n) + 1)"

text \<open>
  The object given to \<open>JSON.stringify\<close>. \<open>toLocaleDateString\<close> depends on the locale of
  the host and is the parameter \<open>localeDate\<close>. \<open>slice(0, 10)\<close> is \<open>take 10\<close>.
\<close>

definition dataSummary :: "(int \<Rightarrow> jsstring) \<Rightarrow> Asset list \<Rightarrow> Transaction list \<Rightarrow> DataSummary" where
  "dataSummary localeDate as txs =
     \<lparr> totalAssets = length as,
       statusCounts = foldl countStatus Map.empty as,
       recentTransactions =
         map (\<lambda>t. \<lparr> type_s = typeValue (type_tx t),
                     asset_s = assetName t,
                     date_s = localeDate (timestamp_tx t),
                     notes_s = notes_tx t \<rparr>) (take 10 txs) \<rparr>"

section \<open>The holder invariant\<close>

text \<open>An asset has a current holder exactly when it is borrowed.\<close>

definition holderInvariant :: "Asset \<Rightarrow> bool" where
  "holderInvariant a \<longleftrightarrow> (currentHolder a \<noteq> None) = (status a = BORROWED)"

section \<open>Example inputs\<close>

text \<open>An environment for the import and the upload of section 8 of the specification.\<close>

definition exampleEnv :: ImportEnv where
  "exampleEnv = \<lparr> randomId = (\<lambda>k. 40000 + k),
                   isoDate = (\<lambda>k. str ''2026-01-01''),
                   randomImg = (\<lambda>k. str ''0.5'') \<rparr>"

definition exampleCSV :: jsstring where
  "exampleCSV =
     str ''Name,Category,Model,SN\<newline>Drone X,Drone,V2,SN1\<newline>,BadRow,,\<newline>Tablet Y,Tablet,T1,SN2''"

text \<open>An environment whose random numbers repeat: every id drawn is 7.\<close>

definition repeatingEnv :: ImportEnv where
  "repeatingEnv = \<lparr> randomId = (\<lambda>k. 7),
                     isoDate = (\<lambda>k. str ''2026-01-01''),
                     randomImg = (\<lambda>k. str ''0.25'') \<rparr>"

section \<open>Counting notifications\<close>

text \<open>The number of notifications that carry a given key.\<close>

definition countKey :: "jsstring \<Rightarrow> Notification list \<Rightarrow> nat" where
  "countKey k ns = length (filter (\<lambda>n. id_ntf n = k) ns)"

text \<open>The Borrow transactions of an asset: the array that \<open>lastBorrowTx\<close> sorts.\<close>

definition borrowsOf :: "Transaction list \<Rightarrow> Asset \<Rightarrow> Transaction list" where
  "borrowsOf txs a = filter (\<lambda>t. assetId t = id_asset a \<and> type_tx t = BORROW) txs"

text \<open>
  A ledger as \<open>handleTransaction\<close> builds it, each transaction appended after the older
  ones: eleven entries, the entry \<open>k\<close> stamped \<open>1000 * k\<close>. \<open>exampleDate\<close> stands for
  \<open>toLocaleDateString\<close> and prints the timestamp.
\<close>

definition exampleDate :: "int \<Rightarrow> jsstring" where
  "exampleDate t = showNat (nat t)"

definition ledgerEntry :: "nat \<Rightarrow> Transaction" where
  "ledgerEntry k =
     \<lparr> id_tx = str ''TX-'' @ showNat k, assetId = str ''AST-001'',
       assetName = str ''MacBook Pro 16\"'', userId = str ''U-7'', userName = str ''Alice Chen'',
       type_tx = (if even k then BORROW else RETURN), timestamp_tx = 1000 * int k,
       signatureUrl = [], notes_tx = None \<rparr>"

definition exampleLedger :: "Transaction list" where
  "exampleLedger = map ledgerEntry [0 ..< 11]"

section \<open>The effect of a bulk-edit form on one asset\<close>

text \<open>
  A form is present when it has a status or a non-empty category: the condition under
  which the flag \<open>changed\<close> of \<open>saveBulkEdit\<close> is set. \<open>patched\<close> overwrites the fields
  the form has and keeps every other field.
\<close>

definition patchPresent :: "BulkEditForm \<Rightarrow> bool" where
  "patchPresent form \<longleftrightarrow>
     status_form form \<noteq> None \<or> (category_form form \<noteq> None \<and> category_form form \<noteq> Some [])"

definition patched :: "BulkEditForm \<Rightarrow> Asset \<Rightarrow> Asset" where
  "patched form a =
     a\<lparr> status := (case status_form form of Some s \<Rightarrow> s | None \<Rightarrow> status a),
        category := (case category_form form of
                       Some c \<Rightarrow> if c \<noteq> [] then c else category a
                     | None \<Rightarrow> category a) \<rparr>"

section \<open>The name read from a line of the upload\<close>

text \<open>
  The first comma-separated field of the trimmed line, itself trimmed and stripped of
  one surrounding pair of quotes: the value bound to \<open>name\<close> in \<open>handleFileUpload\<close>.
\<close>

definition nameField :: "jsstring \<Rightarrow> jsstring" where
  "nameField l = orEmpty (element (rowFields (trim l)) 0)"

section \<open>Stores in which two assets carry one id\<close>

text \<open>
  \<open>handleAddAsset\<close> appends whatever asset it is given; no operation compares ids. The
  first store has the available AST-001 and a lost asset with the same id, the second
  has two borrowed assets with the id AST-002.
\<close>

definition exampleStamp :: "nat \<Rightarrow> int" where
  "exampleStamp k = 1000 + int k"

definition exampleClocks :: "(int \<times> (nat \<Rightarrow> int)) list" where
  "exampleClocks = [(1000, exampleStamp), (2000, exampleStamp)]"

definition lostTwinStore :: Store where
  "lostTwinStore = handleAddAsset ((MOCK_ASSETS ! 0)\<lparr> status := LOST \<rparr>) (initialStore 0)"

definition borrowedTwinStore :: Store where
  "borrowedTwinStore =
     handleAddAsset ((MOCK_ASSETS ! 1)\<lparr> serialNumber := str ''SNY887222'' \<rparr>) (initialStore 0)"

section \<open>The asset form (AdminView, saveAsset)\<close>

text \<open>
  \<open>newAssetForm\<close> is a \<open>Partial<Asset>\<close>: a key is absent (\<open>None\<close>) or present. A
  required key, when present, holds a value: it comes from an asset or from an input of
  the form. An optional key of \<open>Asset\<close> can be present with the value \<open>undefined\<close>
  (\<open>handleTransaction\<close> writes \<open>currentHolder: undefined\<close>), so there a present key
  holds an option.
\<close>

record AssetForm =
  id_new :: "jsstring option"
  name_new :: "jsstring option"
  category_new :: "jsstring option"
  model_new :: "jsstring option"
  serialNumber_new :: "jsstring option"
  purchaseDate_new :: "jsstring option"
  status_new :: "AssetStatus option"
  currentHolder_new :: "jsstring option option"
  imageUrl_new :: "jsstring option"
  qrCode_new :: "jsstring option"
  description_new :: "jsstring option option"
  customFeatures_new :: "(jsstring \<times> jsstring) list option option"

text \<open>One key of \<open>{...editingAsset, ...finalAssetForm}\<close>: a present key of the form wins.\<close>

definition spreadOver :: "'a option \<Rightarrow> 'a \<Rightarrow> 'a" where
  "spreadOver formValue assetValue = (case formValue of None \<Rightarrow> assetValue | Some v \<Rightarrow> v)"

text \<open>
  \<open>record[k] = v\<close> on a plain object: an existing key keeps its place and takes the new
  value, a new key is added last, and a string assigned to \<open>__proto__\<close> is dropped.
\<close>

definition assign :: "(jsstring \<times> jsstring) list \<Rightarrow> jsstring \<Rightarrow> jsstring \<Rightarrow> (jsstring \<times> jsstring) list" where
  "assign r k v =
     (if k = str ''__proto__'' then r
      else if map_of r k \<noteq> None then map (\<lambda>(k', v'). if k' = k then (k', v) else (k', v')) r
      else r @ [(k, v)])"

text \<open>The rows \<open>{key, value}\<close> of \<open>customFeaturesList\<close> are pairs.\<close>

definition customFeaturesRecord :: "(jsstring \<times> jsstring) list \<Rightarrow> (jsstring \<times> jsstring) list" where
  "customFeaturesRecord customFeaturesList =
     foldl (\<lambda>r item. if trim (fst item) \<noteq> [] then assign r (trim (fst item)) (trim (snd item)) else r)
           [] customFeaturesList"

text \<open>
  What \<open>saveAsset\<close> reads from its environment: the floored \<open>Math.random() * 1000\<close> of
  the placeholder image and \<open>new Date().toISOString()\<close>.
\<close>

record SaveEnv =
  randomImage :: nat
  isoNow :: jsstring

text \<open>
  \<open>editingAsset\<close> is \<open>None\<close> when a new asset is added. \<open>t\<close> is the translation lookup.
  The result is the store after \<open>onUpdateAsset\<close> or \<open>onAddAsset\<close>; without a name or
  an id nothing is stored. Closing the dialog is not modelled.
\<close>

definition saveAsset ::
  "SaveEnv \<Rightarrow> (jsstring \<Rightarrow> jsstring) \<Rightarrow> AssetForm \<Rightarrow> Asset option \<Rightarrow> (jsstring \<times> jsstring) list \<Rightarrow>
   Store \<Rightarrow> Store" where
  "saveAsset env t newAssetForm editingAsset customFeaturesList st =
     (let customFeaturesRec = customFeaturesRecord customFeaturesList;
          finalImageUrl = orDefault (imageUrl_new newAssetForm)
                            (str ''https://picsum.photos/400/300?random='' @ showNat (randomImage env));
          hasNameAndId = (orEmpty (name_new newAssetForm) \<noteq> [] \<and> orEmpty (id_new newAssetForm) \<noteq> [])
      in case editingAsset of
           Some e \<Rightarrow>
             if hasNameAndId
             then handleUpdateAsset
                    \<lparr> id_asset = spreadOver (id_new newAssetForm) (id_asset e),
                      name = spreadOver (name_new newAssetForm) (name e),
                      category = spreadOver (category_new newAssetForm) (category e),
                      model = spreadOver (model_new newAssetForm) (model e),
                      serialNumber = spreadOver (serialNumber_new newAssetForm) (serialNumber e),
                      purchaseDate = spreadOver (purchaseDate_new newAssetForm) (purchaseDate e),
                      status = spreadOver (status_new newAssetForm) (status e),
                      currentHolder = spreadOver (currentHolder_new newAssetForm) (currentHolder e),
                      imageUrl = finalImageUrl,
                      qrCode = spreadOver (qrCode_new newAssetForm) (qrCode e),
                      description = spreadOver (description_new newAssetForm) (description e),
                      customFeatures = Some customFeaturesRec \<rparr> st
             else st
         | None \<Rightarrow>
             if hasNameAndId
             then handleAddAsset
                    \<lparr> id_asset = orEmpty (id_new newAssetForm),
                      name = orDefault (name_new newAssetForm) (t (str ''unknown'')),
                      category = orDefault (category_new newAssetForm) (t (str ''general'')),
                      model = orDefault (model_new newAssetForm) (str ''Standard''),
                      serialNumber = orDefault (serialNumber_new newAssetForm) (str ''N/A''),
                      purchaseDate = orDefault (purchaseDate_new newAssetForm) (isoNow env),
                      status = (case status_new newAssetForm of Some s \<Rightarrow> s | None \<Rightarrow> AVAILABLE),
                      currentHolder = None,
                      imageUrl = finalImageUrl,
                      qrCode = str ''qr-'' @ orEmpty (id_new newAssetForm),
                      description = (case description_new newAssetForm of Some d \<Rightarrow> d | None \<Rightarrow> None),
                      customFeatures = Some customFeaturesRec \<rparr> st
             else st)"

text \<open>
  The form as \<open>openAddAssetModal\<close> sets it (\<open>r\<close> is the floored \<open>Math.random() * 10000\<close>,
  \<open>today\<close> the date part of \<open>new Date().toISOString()\<close>) and as \<open>openViewAssetModal\<close>
  sets it: the asset itself. An input of the form then replaces one key, as in
  \<open>setNewAssetForm({...newAssetForm, status: v})\<close>.
\<close>

definition openAddAssetModal :: "nat \<Rightarrow> jsstring \<Rightarrow> AssetForm" where
  "openAddAssetModal r today =
     \<lparr> id_new = Some (str ''AST-'' @ showNat r), name_new = None, category_new = None,
       model_new = None, serialNumber_new = None, purchaseDate_new = Some today,
       status_new = Some AVAILABLE, currentHolder_new = None, imageUrl_new = None,
       qrCode_new = None, description_new = None, customFeatures_new = None \<rparr>"

definition openViewAssetModal :: "Asset \<Rightarrow> AssetForm" where
  "openViewAssetModal asset =
     \<lparr> id_new = Some (id_asset asset), name_new = Some (name asset),
       category_new = Some (category asset), model_new = Some (model asset),
       serialNumber_new = Some (serialNumber asset), purchaseDate_new = Some (purchaseDate asset),
       status_new = Some (status asset), currentHolder_new = Some (currentHolder asset),
       imageUrl_new = Some (imageUrl asset), qrCode_new = Some (qrCode asset),
       description_new = Some (description asset),
       customFeatures_new = Some (customFeatures asset) \<rparr>"

text \<open>The English entries of \<open>TRANSLATIONS\<close> that the operations above look up.\<close>

definition t_en :: "jsstring \<Rightarrow> jsstring" where
  "t_en key =
     (if key = str ''th_id'' then str ''ID''
      else if key = str ''th_name'' then str ''Asset Name''
      else if key = str ''th_category'' then str ''Category''
      else if key = str ''th_status'' then str ''Status''
      else if key = str ''th_holder'' then str ''Holder''
      else if key = str ''unknown'' then str ''Unknown''
      else if key = str ''general'' then str ''General''
      else key)"

definition exampleSaveEnv :: SaveEnv where
  "exampleSaveEnv = \<lparr> randomImage = 512, isoNow = str ''2026-01-01T09:00:00.000Z'' \<rparr>"

text \<open>\<open>Object.entries(asset.customFeatures)\<close>, the list \<open>openViewAssetModal\<close> gives the form.\<close>

definition customFeaturesEntries :: "Asset \<Rightarrow> (jsstring \<times> jsstring) list" where
  "customFeaturesEntries asset = (case customFeatures asset of None \<Rightarrow> [] | Some fs \<Rightarrow> fs)"


section \<open>Fields that pass through the CSV codec unchanged\<close>







section \<open>Lookup of an asset by id\<close>

lemmas mock_simps = initialStore_def MOCK_ASSETS_def MOCK_TRANSACTIONS_def str_def

lemma find_id_None: "aId \<notin> id_asset ` set as \<Longrightarrow> find (\<lambda>a. id_asset a = aId) as = None"
  by (induction as) auto

lemma find_id_Some: "a \<in> set as \<Longrightarrow> \<exists>b. find (\<lambda>x. id_asset x = id_asset a) as = Some b"
  by (induction as) auto

lemma find_Some_mem: "find P as = Some b \<Longrightarrow> b \<in> set as \<and> P b"
  by (induction as) (auto split: if_splits)

section \<open>Lifecycle transactions\<close>

text \<open>
  C10. A transaction on an id that no asset of the store carries changes nothing:
  no transaction is appended and the asset collection stays as it was.
\<close>

theorem handleTransaction_missing_id:
  assumes "aId \<notin> id_asset ` set (assets st)"
  shows "handleTransaction r1 r2 now aId ty uName sg nts st = st"
  using find_id_None [OF assms] by (simp add: handleTransaction_def)

theorem handleTransaction_missing_id_witness:
  "str ''AST-999'' \<notin> id_asset ` set (assets (initialStore 0)) \<and>
   handleTransaction 17 4 1000 (str ''AST-999'') BORROW (str ''Alice Chen'') [] None (initialStore 0)
     = initialStore 0"
proof -
  have h: "str ''AST-999'' \<notin> id_asset ` set (assets (initialStore 0))"
    by (simp add: mock_simps)
  from handleTransaction_missing_id [OF h] h show ?thesis by simp
qed

lemma handleTransaction_found:
  assumes "a \<in> set (assets st)"
  shows "assets (handleTransaction r1 r2 now (id_asset a) ty uName sg nts st) =
           map (\<lambda>b. if id_asset b = id_asset a
                     then b\<lparr> status := (if ty = BORROW then BORROWED else AVAILABLE),
                             currentHolder := (if ty = BORROW then Some uName else None) \<rparr>
                     else b) (assets st)"
    and "\<exists>tx. transactions (handleTransaction r1 r2 now (id_asset a) ty uName sg nts st) =
                 transactions st @ [tx] \<and> type_tx tx = ty \<and> assetId tx = id_asset a"
  using find_id_Some [OF assms] by (auto simp: handleTransaction_def Let_def)

text \<open>
  C3. Borrowing an available asset of the store makes it borrowed with the given user
  as holder, and returning a borrowed one makes it available with no holder; each
  appends exactly one transaction, of the respective type, that refers to the asset's
  id. The asset is followed by its position in the collection.
\<close>

theorem borrow_return_effect:
  assumes "a \<in> set (assets st)"
  shows "(status a = AVAILABLE \<longrightarrow>
          (let st' = handleTransaction r1 r2 now (id_asset a) BORROW uName sg nts st
           in length (assets st') = length (assets st) \<and>
              (\<forall>i < length (assets st). assets st ! i = a \<longrightarrow>
                 assets st' ! i = a\<lparr> status := BORROWED, currentHolder := Some uName \<rparr>) \<and>
              (\<exists>tx. transactions st' = transactions st @ [tx] \<and>
                    type_tx tx = BORROW \<and> assetId tx = id_asset a))) \<and>
         (status a = BORROWED \<longrightarrow>
          (let st' = handleTransaction r1 r2 now (id_asset a) RETURN uName sg nts st
           in length (assets st') = length (assets st) \<and>
              (\<forall>i < length (assets st). assets st ! i = a \<longrightarrow>
                 assets st' ! i = a\<lparr> status := AVAILABLE, currentHolder := None \<rparr>) \<and>
              (\<exists>tx. transactions st' = transactions st @ [tx] \<and>
                    type_tx tx = RETURN \<and> assetId tx = id_asset a)))"
  using handleTransaction_found [OF assms] by (simp add: Let_def)

theorem borrow_return_effect_witness:
  "MOCK_ASSETS ! 0 \<in> set (assets (initialStore 0)) \<and> status (MOCK_ASSETS ! 0) = AVAILABLE \<and>
   (let a = MOCK_ASSETS ! 0;
        st' = handleTransaction 17 4 1000 (id_asset a) BORROW (str ''Alice Chen'') [] None
                (initialStore 0)
    in length (assets st') = length (assets (initialStore 0)) \<and>
       (\<forall>i < length (assets (initialStore 0)). assets (initialStore 0) ! i = a \<longrightarrow>
          assets st' ! i = a\<lparr> status := BORROWED, currentHolder := Some (str ''Alice Chen'') \<rparr>) \<and>
       (\<exists>tx. transactions st' = transactions (initialStore 0) @ [tx] \<and>
             type_tx tx = BORROW \<and> assetId tx = id_asset a)) \<and>
   MOCK_ASSETS ! 1 \<in> set (assets (initialStore 0)) \<and> status (MOCK_ASSETS ! 1) = BORROWED \<and>
   (let a = MOCK_ASSETS ! 1;
        st' = handleTransaction 17 4 1000 (id_asset a) RETURN (str ''Alice Chen'') [] None
                (initialStore 0)
    in length (assets st') = length (assets (initialStore 0)) \<and>
       (\<forall>i < length (assets (initialStore 0)). assets (initialStore 0) ! i = a \<longrightarrow>
          assets st' ! i = a\<lparr> status := AVAILABLE, currentHolder := None \<rparr>) \<and>
       (\<exists>tx. transactions st' = transactions (initialStore 0) @ [tx] \<and>
             type_tx tx = RETURN \<and> assetId tx = id_asset a))"
proof -
  have m0: "MOCK_ASSETS ! 0 \<in> set (assets (initialStore 0))"
    and m1: "MOCK_ASSETS ! 1 \<in> set (assets (initialStore 0))"
    by (simp_all add: initialStore_def MOCK_ASSETS_def)
  have s0: "status (MOCK_ASSETS ! 0) = AVAILABLE"
    and s1: "status (MOCK_ASSETS ! 1) = BORROWED"
    by (simp_all add: MOCK_ASSETS_def)
  from borrow_return_effect [OF m0, of 17 4 1000 "str ''Alice Chen''" "[]" None]
       borrow_return_effect [OF m1, of 17 4 1000 "str ''Alice Chen''" "[]" None]
       m0 m1 s0 s1
  show ?thesis
    unfolding Let_def by blast
qed

text \<open>
  C1. Logging maintenance for the asset AST-003, which is in maintenance, through
  \<open>handleTransaction\<close> does not leave its status alone: the asset comes out available.
\<close>

theorem logMaintenance_resets_status:
  "status (assets (initialStore 0) ! 2) = MAINTENANCE \<and>
   id_asset (assets (initialStore 0) ! 2) = str ''AST-003'' \<and>
   status (assets (handleTransaction 17 4 1000 (str ''AST-003'') MAINTENANCE_LOG (str ''Bob Smith'') []
                     (Some (str ''Propeller check'')) (initialStore 0)) ! 2) = AVAILABLE"
  by (simp add: mock_simps handleTransaction_def)

section \<open>The holder invariant under the mutating operations\<close>

lemma applyBulkEdit_fields:
  "fst (applyBulkEdit form a) =
     a\<lparr> status := (case status_form form of Some s \<Rightarrow> s | None \<Rightarrow> status a),
        category := (case category_form form of
                       Some c \<Rightarrow> if c \<noteq> [] then c else category a
                     | None \<Rightarrow> category a) \<rparr>"
  "snd (applyBulkEdit form a) \<longleftrightarrow>
     status_form form \<noteq> None \<or> (\<exists>c. category_form form = Some c \<and> c \<noteq> [])"
  by (auto simp: applyBulkEdit_def split: option.splits)

lemma handleBulkUpdateAssets_inv:
  assumes "\<forall>a \<in> set (assets st). holderInvariant a" "\<forall>u \<in> set updates. holderInvariant u"
  shows "\<forall>a \<in> set (assets (handleBulkUpdateAssets updates st)). holderInvariant a"
proof -
  have "holderInvariant u"
    if "map_of (rev (map (\<lambda>a. (id_asset a, a)) updates)) k = Some u" for k u
  proof -
    from that have "(k, u) \<in> set (rev (map (\<lambda>a. (id_asset a, a)) updates))"
      by (rule map_of_SomeD)
    then have "u \<in> set updates" by auto
    with assms(2) show ?thesis by blast
  qed
  with assms(1) show ?thesis
    by (auto simp: handleBulkUpdateAssets_def Let_def split: option.splits)
qed

lemma importLines_all:
  assumes step: "\<And>k cols. P (importedAsset env k cols)"
  shows "(\<forall>a \<in> set acc. P a) \<Longrightarrow> \<forall>a \<in> set (importLines env acc ls). P a"
proof (induction ls arbitrary: acc)
  case Nil
  then show ?case by simp
next
  case (Cons l ls)
  have ext: "\<forall>a \<in> set (acc @ [importedAsset env (length acc) (rowFields (trim l))]). P a"
    using Cons.prems step by simp
  show ?case
    using Cons.IH [OF ext] Cons.IH [OF Cons.prems] by (simp add: Let_def)
qed

lemma importedAsset_inv: "holderInvariant (importedAsset env k cols)"
  by (simp add: importedAsset_def holderInvariant_def Let_def)

lemma parseCSV_inv: "\<forall>a \<in> set (parseCSV env content). holderInvariant a"
  unfolding parseCSV_def by (rule importLines_all) (simp_all add: importedAsset_inv)


lemma collectUpdates_keeps_inv:
  assumes inv: "\<forall>a \<in> set as. holderInvariant a"
  shows "(\<forall>a \<in> set as. id_asset a \<in> set sel \<longrightarrow>
            (\<forall>s. status_form form = Some s \<longrightarrow> (s = BORROWED) = (status a = BORROWED))) \<Longrightarrow>
         \<forall>u \<in> set (collectUpdates form as sel). holderInvariant u"
proof (induction sel)
  case Nil
  show ?case by simp
next
  case (Cons i ids)
  have rest: "\<forall>u \<in> set (collectUpdates form as ids). holderInvariant u"
    by (rule Cons.IH) (use Cons.prems in auto)
  show ?case
  proof (cases "find (\<lambda>a. id_asset a = i) as")
    case None
    with rest show ?thesis by simp
  next
    case (Some original)
    then have mem: "original \<in> set as" and idn: "id_asset original = i"
      using find_Some_mem by fastforce+
    have keep: "\<forall>s. status_form form = Some s \<longrightarrow> (s = BORROWED) = (status original = BORROWED)"
      using Cons.prems mem idn by simp
    have "holderInvariant original"
      using inv mem by blast
    with keep have "holderInvariant (fst (applyBulkEdit form original))"
      by (cases "status_form form") (simp_all add: applyBulkEdit_fields holderInvariant_def)
    with rest Some show ?thesis
      by (auto simp: case_prod_unfold Let_def)
  qed
qed

lemma handleUpdateAsset_inv:
  assumes "\<forall>a \<in> set (assets st). holderInvariant a" "holderInvariant u"
  shows "\<forall>a \<in> set (assets (handleUpdateAsset u st)). holderInvariant a"
  using assms by (auto simp: handleUpdateAsset_def)

lemma handleAddAsset_inv:
  assumes "\<forall>a \<in> set (assets st). holderInvariant a" "holderInvariant u"
  shows "\<forall>a \<in> set (assets (handleAddAsset u st)). holderInvariant a"
  using assms by (simp add: handleAddAsset_def)

text \<open>
  C2 (as amended). If every asset of the store has a current holder exactly when it is
  borrowed, this still holds after a lifecycle transaction of any type and after a CSV
  import. It holds after a bulk edit if the patch has no status, or a status that is
  Borrowed for exactly those selected assets of the store that are borrowed already. It
  holds after \<open>saveAsset\<close> on an asset of the store if the form leaves the holder as
  the asset has it and the status saved does not change whether the asset is borrowed,
  and after \<open>saveAsset\<close> for a new asset if the status of the form is not Borrowed.
\<close>

theorem holder_invariant_preserved:
  assumes inv: "\<forall>a \<in> set (assets st). holderInvariant a"
  shows "(\<forall>a \<in> set (assets (handleTransaction r1 r2 now aId ty uName sg nts st)). holderInvariant a) \<and>
         (\<forall>a \<in> set (assets (fst (handleFileUpload env content st))). holderInvariant a) \<and>
         ((\<forall>a \<in> set (assets st). id_asset a \<in> set sel \<longrightarrow>
             (\<forall>s. status_form form = Some s \<longrightarrow> (s = BORROWED) = (status a = BORROWED))) \<longrightarrow>
            (\<forall>a \<in> set (assets (fst (saveBulkEdit form sel st))). holderInvariant a)) \<and>
         (e \<in> set (assets st) \<and>
          spreadOver (currentHolder_new f) (currentHolder e) = currentHolder e \<and>
          (spreadOver (status_new f) (status e) = BORROWED) = (status e = BORROWED) \<longrightarrow>
            (\<forall>a \<in> set (assets (saveAsset senv t f (Some e) features st)). holderInvariant a)) \<and>
         (status_new f \<noteq> Some BORROWED \<longrightarrow>
            (\<forall>a \<in> set (assets (saveAsset senv t f None features st)). holderInvariant a))"
proof (intro conjI impI)
  show "\<forall>a \<in> set (assets (handleTransaction r1 r2 now aId ty uName sg nts st)). holderInvariant a"
    using inv
    by (auto simp: handleTransaction_def Let_def holderInvariant_def split: option.splits)
next
  show "\<forall>a \<in> set (assets (fst (handleFileUpload env content st))). holderInvariant a"
    using inv parseCSV_inv [of env content]
    by (auto simp: handleFileUpload_def handleBulkAddAssets_def Let_def)
next
  assume "\<forall>a \<in> set (assets st). id_asset a \<in> set sel \<longrightarrow>
            (\<forall>s. status_form form = Some s \<longrightarrow> (s = BORROWED) = (status a = BORROWED))"
  then have "\<forall>u \<in> set (collectUpdates form (assets st) sel). holderInvariant u"
    by (rule collectUpdates_keeps_inv [OF inv])
  then show "\<forall>a \<in> set (assets (fst (saveBulkEdit form sel st))). holderInvariant a"
    using inv handleBulkUpdateAssets_inv [of st "collectUpdates form (assets st) sel"]
    by (simp add: saveBulkEdit_def Let_def)
next
  assume h: "e \<in> set (assets st) \<and>
          spreadOver (currentHolder_new f) (currentHolder e) = currentHolder e \<and>
          (spreadOver (status_new f) (status e) = BORROWED) = (status e = BORROWED)"
  then have "holderInvariant e"
    using inv by blast
  with h have u: "holderInvariant u"
    if "currentHolder u = spreadOver (currentHolder_new f) (currentHolder e)"
       "status u = spreadOver (status_new f) (status e)" for u
    using that by (simp add: holderInvariant_def)
  show "\<forall>a \<in> set (assets (saveAsset senv t f (Some e) features st)). holderInvariant a"
    unfolding saveAsset_def Let_def
    by (simp add: inv) (intro impI handleUpdateAsset_inv [OF inv] u; simp)
next
  assume "status_new f \<noteq> Some BORROWED"
  then have u: "holderInvariant u"
    if "currentHolder u = None"
       "status u = (case status_new f of Some s \<Rightarrow> s | None \<Rightarrow> AVAILABLE)" for u
    using that by (cases "status_new f") (simp_all add: holderInvariant_def)
  show "\<forall>a \<in> set (assets (saveAsset senv t f None features st)). holderInvariant a"
    unfolding saveAsset_def Let_def
    by (simp add: inv) (intro impI handleAddAsset_inv [OF inv] u; simp)
qed

theorem holder_invariant_preserved_witness:
  "list_all holderInvariant (assets (initialStore 0)) \<and>
   list_all holderInvariant
     (assets (handleTransaction 17 4 1000 (str ''AST-002'') MAINTENANCE_LOG (str ''Bob Smith'') []
                None (initialStore 0))) \<and>
   list_all holderInvariant (assets (fst (handleFileUpload exampleEnv exampleCSV (initialStore 0)))) \<and>
   list_all holderInvariant
     (assets (fst (saveBulkEdit \<lparr> status_form = Some MAINTENANCE, category_form = Some [] \<rparr>
                     [str ''AST-001'', str ''AST-404'', str ''AST-004''] (initialStore 0)))) \<and>
   list_all holderInvariant
     (assets (saveAsset exampleSaveEnv t_en
                ((openViewAssetModal (MOCK_ASSETS ! 0))\<lparr> status_new := Some LOST \<rparr>)
                (Some (MOCK_ASSETS ! 0)) (customFeaturesEntries (MOCK_ASSETS ! 0)) (initialStore 0))) \<and>
   list_all holderInvariant
     (assets (saveAsset exampleSaveEnv t_en
                ((openAddAssetModal 4711 (str ''2026-01-01''))\<lparr> name_new := Some (str ''Spare camera'') \<rparr>)
                None [] (initialStore 0)))"
proof -
  let ?form = "\<lparr> status_form = Some MAINTENANCE, category_form = Some [] \<rparr>"
  let ?sel = "[str ''AST-001'', str ''AST-404'', str ''AST-004'']"
  let ?e = "MOCK_ASSETS ! 0"
  let ?edit = "(openViewAssetModal ?e)\<lparr> status_new := Some LOST \<rparr>"
  let ?add = "(openAddAssetModal 4711 (str ''2026-01-01''))\<lparr> name_new := Some (str ''Spare camera'') \<rparr>"
  have h: "\<forall>a \<in> set (assets (initialStore 0)). holderInvariant a"
    by code_simp
  have b: "\<forall>a \<in> set (assets (initialStore 0)). id_asset a \<in> set ?sel \<longrightarrow>
             (\<forall>s. status_form ?form = Some s \<longrightarrow> (s = BORROWED) = (status a = BORROWED))"
    by (simp add: mock_simps)
  have e: "?e \<in> set (assets (initialStore 0)) \<and>
           spreadOver (currentHolder_new ?edit) (currentHolder ?e) = currentHolder ?e \<and>
           (spreadOver (status_new ?edit) (status ?e) = BORROWED) = (status ?e = BORROWED)"
    by (simp add: initialStore_def MOCK_ASSETS_def spreadOver_def openViewAssetModal_def)
  have n: "status_new ?add \<noteq> Some BORROWED"
    by (simp add: openAddAssetModal_def)
  note T = holder_invariant_preserved [OF h]
  show ?thesis
    unfolding list_all_iff
  proof (intro conjI)
    show "\<forall>a \<in> set (assets (initialStore 0)). holderInvariant a"
      by (rule h)
  next
    show "\<forall>a \<in> set (assets (handleTransaction 17 4 1000 (str ''AST-002'') MAINTENANCE_LOG
                               (str ''Bob Smith'') [] None (initialStore 0))). holderInvariant a"
      by (rule T [THEN conjunct1])
  next
    show "\<forall>a \<in> set (assets (fst (handleFileUpload exampleEnv exampleCSV (initialStore 0)))).
            holderInvariant a"
      by (rule T [THEN conjunct2, THEN conjunct1])
  next
    show "\<forall>a \<in> set (assets (fst (saveBulkEdit ?form ?sel (initialStore 0)))). holderInvariant a"
      by (rule T [THEN conjunct2, THEN conjunct2, THEN conjunct1, THEN mp, OF b])
  next
    show "\<forall>a \<in> set (assets (saveAsset exampleSaveEnv t_en ?edit (Some ?e)
                               (customFeaturesEntries ?e) (initialStore 0))). holderInvariant a"
      by (rule T [THEN conjunct2, THEN conjunct2, THEN conjunct2, THEN conjunct1, THEN mp, OF e])
  next
    show "\<forall>a \<in> set (assets (saveAsset exampleSaveEnv t_en ?add None [] (initialStore 0))).
            holderInvariant a"
      by (rule T [THEN conjunct2, THEN conjunct2, THEN conjunct2, THEN conjunct2, THEN mp, OF n])
  qed
qed

text \<open>
  C2 as stated fails on each path of the administrator: a bulk edit that sets the
  borrowed asset AST-002 to Maintenance keeps its holder; the edit form that sets the
  available asset AST-001 to Borrowed gives it no holder; the add form with the status
  Borrowed adds a borrowed asset without holder.
\<close>

theorem admin_paths_break_holder_invariant:
  "list_all holderInvariant (assets (initialStore 0)) \<and>
   \<not> list_all holderInvariant
       (assets (fst (saveBulkEdit \<lparr> status_form = Some MAINTENANCE, category_form = Some [] \<rparr>
                       [str ''AST-002''] (initialStore 0)))) \<and>
   \<not> list_all holderInvariant
       (assets (saveAsset exampleSaveEnv t_en
                  ((openViewAssetModal (MOCK_ASSETS ! 0))\<lparr> status_new := Some BORROWED \<rparr>)
                  (Some (MOCK_ASSETS ! 0)) (customFeaturesEntries (MOCK_ASSETS ! 0)) (initialStore 0))) \<and>
   \<not> list_all holderInvariant
       (assets (saveAsset exampleSaveEnv t_en
                  ((openAddAssetModal 4711 (str ''2026-01-01''))
                     \<lparr> name_new := Some (str ''Spare camera''), status_new := Some BORROWED \<rparr>)
                  None [] (initialStore 0)))"
proof (intro conjI)
  show "list_all holderInvariant (assets (initialStore 0))"
    by code_simp
  show "\<not> list_all holderInvariant
       (assets (fst (saveBulkEdit \<lparr> status_form = Some MAINTENANCE, category_form = Some [] \<rparr>
                       [str ''AST-002''] (initialStore 0))))"
    by code_simp
  show "\<not> list_all holderInvariant
       (assets (saveAsset exampleSaveEnv t_en
                  ((openViewAssetModal (MOCK_ASSETS ! 0))\<lparr> status_new := Some BORROWED \<rparr>)
                  (Some (MOCK_ASSETS ! 0)) (customFeaturesEntries (MOCK_ASSETS ! 0)) (initialStore 0)))"
    by (simp add: saveAsset_def handleUpdateAsset_def openViewAssetModal_def spreadOver_def
        orEmpty_def orDefault_def initialStore_def MOCK_ASSETS_def str_def holderInvariant_def)
  show "\<not> list_all holderInvariant
       (assets (saveAsset exampleSaveEnv t_en
                  ((openAddAssetModal 4711 (str ''2026-01-01''))
                     \<lparr> name_new := Some (str ''Spare camera''), status_new := Some BORROWED \<rparr>)
                  None [] (initialStore 0)))"
    by (simp add: saveAsset_def handleAddAsset_def openAddAssetModal_def
        orEmpty_def orDefault_def initialStore_def str_def holderInvariant_def)
qed

section \<open>Notifications\<close>

lemma map_stamped:
  assumes "\<And>mk ts. mk \<in> set ms \<Longrightarrow> h (mk ts) = h (mk 0)"
  shows "map h (map (\<lambda>(k, mk). mk (stamp k)) (enumerate n ms)) = map (\<lambda>mk. h (mk 0)) ms"
  using assms
proof (induction ms arbitrary: n)
  case Nil
  show ?case by simp
next
  case (Cons m ms)
  have "h (m (stamp n)) = h (m 0)"
    by (rule Cons.prems) simp
  moreover have "map h (map (\<lambda>(k, mk). mk (stamp k)) (enumerate (Suc n) ms)) = map (\<lambda>mk. h (mk 0)) ms"
    by (rule Cons.IH) (rule Cons.prems, simp)
  ultimately show ?case by simp
qed

lemma concat_map_if: "concat (map (\<lambda>a. if c a then [k a] else []) xs) = map k (filter c xs)"
  by (induction xs) auto

lemma overdueFor_cases:
  "overdueFor lang now txs a = [] \<or>
   (\<exists>lastTx. overdueFor lang now txs a = [overdueAlert lang a lastTx])"
  by (auto simp: overdueFor_def split: option.splits)

lemma key_type_overdueFor:
  "map (\<lambda>mk. (id_ntf (mk 0), type_ntf (mk 0))) (overdueFor lang now txs a) =
     (if overdueFor lang now txs a \<noteq> [] then [(str ''overdue-'' @ id_asset a, warning)] else [])"
  using overdueFor_cases [of lang now txs a] by (auto simp: overdueAlert_def)

lemma keys_of_deriveNotifications:
  "map (\<lambda>n. (id_ntf n, type_ntf n)) (deriveNotifications lang now stamp as txs) =
     map (\<lambda>a. (str ''lost-'' @ id_asset a, critical)) (filter (\<lambda>a. status a = LOST) as) @
     map (\<lambda>a. (str ''overdue-'' @ id_asset a, warning))
         (filter (\<lambda>a. overdueFor lang now txs a \<noteq> []) (filter (\<lambda>a. status a = BORROWED) as))"
proof -
  let ?h = "\<lambda>n. (id_ntf n, type_ntf n)"
  let ?L = "filter (\<lambda>a. status a = LOST) as"
  let ?B = "filter (\<lambda>a. status a = BORROWED) as"
  let ?pushed = "map (lostAlert lang) ?L @ concat (map (overdueFor lang now txs) ?B)"
  have indep: "?h (mk ts) = ?h (mk 0)" if "mk \<in> set ?pushed" for mk ts
  proof -
    from that consider a where "mk = lostAlert lang a"
      | a where "mk \<in> set (overdueFor lang now txs a)" by auto
    then show ?thesis
    proof cases
      case 1
      then show ?thesis by (simp add: lostAlert_def)
    next
      case 2
      with overdueFor_cases [of lang now txs a] show ?thesis
        by (auto simp: overdueAlert_def)
    qed
  qed
  have "map ?h (deriveNotifications lang now stamp as txs) = map (\<lambda>mk. ?h (mk 0)) ?pushed"
    unfolding deriveNotifications_def Let_def
    by (rule map_stamped [where h = ?h and ms = ?pushed and stamp = stamp and n = 0, OF indep])
  also have "\<dots> = map (\<lambda>a. ?h (lostAlert lang a 0)) ?L @
                   concat (map (\<lambda>a. map (\<lambda>mk. ?h (mk 0)) (overdueFor lang now txs a)) ?B)"
    by (simp add: map_concat comp_def)
  also have "map (\<lambda>a. ?h (lostAlert lang a 0)) ?L = map (\<lambda>a. (str ''lost-'' @ id_asset a, critical)) ?L"
    by (simp add: lostAlert_def)
  also have "concat (map (\<lambda>a. map (\<lambda>mk. ?h (mk 0)) (overdueFor lang now txs a)) ?B) =
             map (\<lambda>a. (str ''overdue-'' @ id_asset a, warning))
                 (filter (\<lambda>a. overdueFor lang now txs a \<noteq> []) ?B)"
    by (simp only: key_type_overdueFor concat_map_if)
  finally show ?thesis .
qed


lemma countKey_keys:
  "countKey k ns = length (filter (\<lambda>p. fst p = k) (map (\<lambda>n. (id_ntf n, type_ntf n)) ns))"
  by (simp add: countKey_def filter_map comp_def)

lemma lost_overdue_distinct [simp]:
  "str ''lost-'' @ x \<noteq> str ''overdue-'' @ y" "str ''overdue-'' @ y \<noteq> str ''lost-'' @ x"
  by (simp_all add: str_def)

lemma count_by_id:
  assumes "distinct (map f xs)" "x \<in> set xs"
  shows "length (filter (\<lambda>a. f a = f x) (filter P xs)) = (if P x then 1 else 0)"
  using assms
proof (induction xs)
  case Nil
  then show ?case by simp
next
  case (Cons y ys)
  show ?case
  proof (cases "y = x")
    case True
    from Cons.prems(1) True have notin: "f x \<notin> f ` set ys" by simp
    have "f a \<noteq> f x" if "a \<in> set ys" for a
    proof
      assume "f a = f x"
      moreover from that have "f a \<in> f ` set ys" by (rule imageI)
      ultimately show False using notin by simp
    qed
    then have "\<forall>a \<in> set ys. f a \<noteq> f x" by simp
    then have "filter (\<lambda>a. f a = f x) (filter P ys) = []"
      by (simp add: filter_empty_conv)
    with True show ?thesis by simp
  next
    case False
    with Cons.prems have mem: "x \<in> set ys" and ne: "f y \<noteq> f x" and d: "distinct (map f ys)"
      by auto
    from Cons.IH [OF d mem] ne show ?thesis by (cases "P x") simp_all
  qed
qed

lemma countKey_lost:
  assumes "a \<in> set as" "distinct (map id_asset as)"
  shows "countKey (str ''lost-'' @ id_asset a) (deriveNotifications lang now stamp as txs) =
           (if status a = LOST then 1 else 0)"
  using count_by_id [OF assms(2,1), of "\<lambda>a. status a = LOST"]
  by (simp add: countKey_keys keys_of_deriveNotifications filter_map comp_def)

lemma countKey_overdue:
  assumes "a \<in> set as" "distinct (map id_asset as)"
  shows "countKey (str ''overdue-'' @ id_asset a) (deriveNotifications lang now stamp as txs) =
           (if status a = BORROWED \<and> overdueFor lang now txs a \<noteq> [] then 1 else 0)"
  using count_by_id [OF assms(2,1), of "\<lambda>a. status a = BORROWED \<and> overdueFor lang now txs a \<noteq> []"]
  by (simp add: countKey_keys keys_of_deriveNotifications filter_map comp_def conj_commute)

lemma type_of_key:
  assumes "n \<in> set (deriveNotifications lang now stamp as txs)"
  shows "(id_ntf n = str ''lost-'' @ i \<longrightarrow> type_ntf n = critical) \<and>
         (id_ntf n = str ''overdue-'' @ i \<longrightarrow> type_ntf n = warning)"
proof -
  from assms have "(id_ntf n, type_ntf n) \<in>
      set (map (\<lambda>n. (id_ntf n, type_ntf n)) (deriveNotifications lang now stamp as txs))"
    by (simp add: image_iff) blast
  then show ?thesis
    unfolding keys_of_deriveNotifications by auto
qed

lemma runEffect_last:
  assumes "clocks \<noteq> []"
  shows "runEffect lang st clocks initial =
           deriveNotifications lang (fst (last clocks)) (snd (last clocks)) (assets st) (transactions st)"
  using assms
  by (induction clocks rule: rev_induct) (simp_all add: runEffect_def notificationsEffect_def)

text \<open>
  C8 (as amended). In a store whose asset ids are unique: whatever the effect has run
  before, and however often, the notifications it leaves hold exactly one with the key
  \<open>lost-<id>\<close> for an asset that is lost and none for an asset that is not, and a
  notification with that key is critical.
\<close>

theorem lost_alert_once:
  assumes "a \<in> set (assets st)" "distinct (map id_asset (assets st))" "clocks \<noteq> []"
  shows "countKey (str ''lost-'' @ id_asset a) (runEffect lang st clocks initial) =
           (if status a = LOST then 1 else 0) \<and>
         (\<forall>n \<in> set (runEffect lang st clocks initial).
            id_ntf n = str ''lost-'' @ id_asset a \<longrightarrow> type_ntf n = critical)"
  unfolding runEffect_last [OF assms(3)]
  using countKey_lost [OF assms(1,2)] type_of_key by blast

theorem lost_alert_once_witness:
  "(let lost = (MOCK_ASSETS ! 2)\<lparr> status := LOST \<rparr>;
        st = handleUpdateAsset lost (initialStore 0);
        clocks = [(1000, \<lambda>k. 1000), (2000, \<lambda>k. 2000 + int k)]
    in lost \<in> set (assets st) \<and> MOCK_ASSETS ! 0 \<in> set (assets st) \<and>
       distinct (map id_asset (assets st)) \<and>
       countKey (str ''lost-'' @ id_asset lost) (runEffect zh st clocks []) = 1 \<and>
       countKey (str ''lost-'' @ id_asset (MOCK_ASSETS ! 0)) (runEffect zh st clocks []) = 0)"
proof -
  let ?lost = "(MOCK_ASSETS ! 2)\<lparr> status := LOST \<rparr>"
  let ?st = "handleUpdateAsset ?lost (initialStore 0)"
  let ?clocks = "[(1000 :: int, \<lambda>k :: nat. 1000 :: int), (2000, \<lambda>k. 2000 + int k)]"
  have as: "assets ?st = [MOCK_ASSETS ! 0, MOCK_ASSETS ! 1, ?lost, MOCK_ASSETS ! 3, MOCK_ASSETS ! 4]"
    by (simp add: handleUpdateAsset_def initialStore_def MOCK_ASSETS_def str_def)
  have m1: "?lost \<in> set (assets ?st)" and m0: "MOCK_ASSETS ! 0 \<in> set (assets ?st)"
    unfolding as by simp_all
  have d: "distinct (map id_asset (assets ?st))"
    unfolding as by (simp add: MOCK_ASSETS_def str_def)
  have c: "?clocks \<noteq> []" by simp
  have s1: "status ?lost = LOST" and s0: "status (MOCK_ASSETS ! 0) \<noteq> LOST"
    by (simp_all add: MOCK_ASSETS_def)
  from lost_alert_once [OF m1 d c, of zh "[]"] s1
  have one: "countKey (str ''lost-'' @ id_asset ?lost) (runEffect zh ?st ?clocks []) = 1"
    by simp
  from lost_alert_once [OF m0 d c, of zh "[]"] s0
  have none: "countKey (str ''lost-'' @ id_asset (MOCK_ASSETS ! 0)) (runEffect zh ?st ?clocks []) = 0"
    by simp
  from m1 m0 d one none show ?thesis
    unfolding Let_def by blast
qed

text \<open>
  C8 as stated fails in a store where two assets carry one id: the available AST-001
  gets a notification with its key \<open>lost-AST-001\<close>, raised by the lost asset of the
  same id.
\<close>

theorem lost_alert_for_available_twin:
  "assets lostTwinStore ! 0 = MOCK_ASSETS ! 0 \<and>
   status (assets lostTwinStore ! 0) = AVAILABLE \<and>
   id_asset (assets lostTwinStore ! 0) = str ''AST-001'' \<and>
   countKey (str ''lost-AST-001'') (runEffect en lostTwinStore exampleClocks []) = 1"
  by code_simp

lemma lastBorrowTx_None: "lastBorrowTx txs a = None \<longleftrightarrow> borrowsOf txs a = []"
proof -
  have "sort_key (\<lambda>t. - timestamp_tx t) (borrowsOf txs a) = [] \<longleftrightarrow> borrowsOf txs a = []"
    by (metis length_sort list.size(3) length_0_conv)
  then show ?thesis
    by (cases "sort_key (\<lambda>t. - timestamp_tx t) (borrowsOf txs a)")
       (simp_all add: lastBorrowTx_def borrowsOf_def)
qed

lemma lastBorrowTx_Some:
  assumes "lastBorrowTx txs a = Some t"
  shows "timestamp_tx t = Max (timestamp_tx ` set (borrowsOf txs a))"
proof -
  let ?f = "\<lambda>t. - timestamp_tx t"
  from assms obtain rest where s: "sort_key ?f (borrowsOf txs a) = t # rest"
    by (auto simp: lastBorrowTx_def borrowsOf_def split: list.splits)
  have "sorted (map ?f (sort_key ?f (borrowsOf txs a)))"
    by (rule sorted_sort_key)
  with s have le: "\<forall>z \<in> set rest. timestamp_tx z \<le> timestamp_tx t"
    by simp
  have "set (t # rest) = set (borrowsOf txs a)"
    using s by (metis set_sort)
  then have mem: "t \<in> set (borrowsOf txs a)"
    and all: "\<forall>z \<in> set (borrowsOf txs a). timestamp_tx z \<le> timestamp_tx t"
    using le by auto
  show ?thesis
    by (rule sym, rule Max_eqI) (use mem all in auto)
qed

lemma overdueFor_nonempty:
  "overdueFor lang now txs a \<noteq> [] \<longleftrightarrow>
     borrowsOf txs a \<noteq> [] \<and> now - Max (timestamp_tx ` set (borrowsOf txs a)) > sevenDaysMs"
proof (cases "lastBorrowTx txs a")
  case None
  then show ?thesis
    using lastBorrowTx_None [of txs a] by (simp add: overdueFor_def)
next
  case (Some t)
  then have "borrowsOf txs a \<noteq> []"
    using lastBorrowTx_None [of txs a] by simp
  with Some lastBorrowTx_Some [OF Some] show ?thesis
    by (simp add: overdueFor_def)
qed

text \<open>
  C4 (as amended). In a collection whose asset ids are unique: for a borrowed asset,
  the notifications hold exactly one with the key
  \<open>overdue-<id>\<close> if the asset has a Borrow transaction and the latest of them is more
  than seven days older than the clock reading, and none otherwise (in particular
  none without any Borrow transaction); a notification with that key is a warning.
\<close>

theorem overdue_alert_iff:
  assumes "a \<in> set as" "status a = BORROWED" "distinct (map id_asset as)"
  shows "countKey (str ''overdue-'' @ id_asset a) (deriveNotifications lang now stamp as txs) =
           (if borrowsOf txs a \<noteq> [] \<and>
               now - Max (timestamp_tx ` set (borrowsOf txs a)) > sevenDaysMs
            then 1 else 0) \<and>
         (\<forall>n \<in> set (deriveNotifications lang now stamp as txs).
            id_ntf n = str ''overdue-'' @ id_asset a \<longrightarrow> type_ntf n = warning)"
  using countKey_overdue [OF assms(1,3), of lang now stamp txs] assms(2) type_of_key
  unfolding overdueFor_nonempty by simp

theorem overdue_alert_iff_witness:
  "MOCK_ASSETS ! 1 \<in> set MOCK_ASSETS \<and> status (MOCK_ASSETS ! 1) = BORROWED \<and>
   distinct (map id_asset MOCK_ASSETS) \<and>
   countKey (str ''overdue-'' @ id_asset (MOCK_ASSETS ! 1))
     (deriveNotifications en (6 * 86400000) (\<lambda>k. 0) MOCK_ASSETS (MOCK_TRANSACTIONS 0)) = 1 \<and>
   countKey (str ''overdue-'' @ id_asset (MOCK_ASSETS ! 1))
     (deriveNotifications en (4 * 86400000) (\<lambda>k. 0) MOCK_ASSETS (MOCK_TRANSACTIONS 0)) = 0"
proof -
  have m: "MOCK_ASSETS ! 1 \<in> set MOCK_ASSETS"
    by (simp add: MOCK_ASSETS_def)
  have s: "status (MOCK_ASSETS ! 1) = BORROWED"
    by (simp add: MOCK_ASSETS_def)
  have d: "distinct (map id_asset MOCK_ASSETS)"
    by (simp add: MOCK_ASSETS_def str_def)
  have b: "borrowsOf (MOCK_TRANSACTIONS 0) (MOCK_ASSETS ! 1) = [MOCK_TRANSACTIONS 0 ! 0]"
    by (simp add: borrowsOf_def MOCK_ASSETS_def MOCK_TRANSACTIONS_def str_def)
  have t: "timestamp_tx (MOCK_TRANSACTIONS 0 ! 0) = - 172800000"
    by (simp add: MOCK_TRANSACTIONS_def)
  from overdue_alert_iff [OF m s d, of en "6 * 86400000" "\<lambda>k. 0" "MOCK_TRANSACTIONS 0"]
  have late: "countKey (str ''overdue-'' @ id_asset (MOCK_ASSETS ! 1))
     (deriveNotifications en (6 * 86400000) (\<lambda>k. 0) MOCK_ASSETS (MOCK_TRANSACTIONS 0)) = 1"
    unfolding b sevenDaysMs_def by (simp add: t)
  from overdue_alert_iff [OF m s d, of en "4 * 86400000" "\<lambda>k. 0" "MOCK_TRANSACTIONS 0"]
  have early: "countKey (str ''overdue-'' @ id_asset (MOCK_ASSETS ! 1))
     (deriveNotifications en (4 * 86400000) (\<lambda>k. 0) MOCK_ASSETS (MOCK_TRANSACTIONS 0)) = 0"
    unfolding b sevenDaysMs_def by (simp add: t)
  from m s d late early show ?thesis by blast
qed

text \<open>
  C4 as stated fails in a store where two borrowed assets carry one id: the Borrow
  transaction of AST-002, eight days old, raises two notifications with the key
  \<open>overdue-AST-002\<close>, not one.
\<close>

theorem overdue_alert_twice_for_twins:
  "status (assets borrowedTwinStore ! 1) = BORROWED \<and>
   id_asset (assets borrowedTwinStore ! 1) = str ''AST-002'' \<and>
   countKey (str ''overdue-AST-002'')
     (deriveNotifications en (6 * 86400000) exampleStamp
        (assets borrowedTwinStore) (transactions borrowedTwinStore)) = 2"
  by code_simp

section \<open>Snapshot for the AI summary\<close>

text \<open>
  C9. On a ledger of eleven transactions in the order they were appended, the
  snapshot's \<open>recentTransactions\<close> are the ten oldest (stamped 0 to 9000); the most
  recent one (stamped 10000) is left out.
\<close>

theorem snapshot_takes_oldest_transactions:
  "map timestamp_tx exampleLedger =
     [0, 1000, 2000, 3000, 4000, 5000, 6000, 7000, 8000, 9000, 10000] \<and>
   map date_s (recentTransactions (dataSummary exampleDate MOCK_ASSETS exampleLedger)) =
     [exampleDate 0, exampleDate 1000, exampleDate 2000, exampleDate 3000, exampleDate 4000,
      exampleDate 5000, exampleDate 6000, exampleDate 7000, exampleDate 8000, exampleDate 9000]"
  by (simp add: exampleLedger_def ledgerEntry_def dataSummary_def upt_rec [of 0]
      upt_rec [of "Suc _"] eval_nat_numeral)

section \<open>Bulk edit\<close>

lemma applyBulkEdit_patched:
  "applyBulkEdit form a = (patched form a, patchPresent form)"
  by (auto simp: applyBulkEdit_def patched_def patchPresent_def split: option.splits)

lemma id_patched [simp]: "id_asset (patched form a) = id_asset a"
  by (simp add: patched_def)

lemma find_id_distinct:
  assumes "distinct (map id_asset as)" "a \<in> set as"
  shows "find (\<lambda>b. id_asset b = id_asset a) as = Some a"
  using assms by (induction as) (auto simp: image_iff)

lemma collectUpdates_absent: "\<not> patchPresent form \<Longrightarrow> collectUpdates form as sel = []"
  by (induction sel) (simp_all add: applyBulkEdit_patched split: option.splits)

lemma ids_collectUpdates:
  assumes "patchPresent form"
  shows "map id_asset (collectUpdates form as sel) = filter (\<lambda>i. i \<in> id_asset ` set as) sel"
proof (induction sel)
  case Nil
  show ?case by simp
next
  case (Cons i ids)
  show ?case
  proof (cases "find (\<lambda>a. id_asset a = i) as")
    case None
    then have "i \<notin> id_asset ` set as"
      by (auto simp: find_None_iff)
    with None Cons show ?thesis by simp
  next
    case (Some original)
    then have "original \<in> set as" "id_asset original = i"
      using find_Some_mem by fastforce+
    then have "i \<in> id_asset ` set as" by (auto simp: image_iff)
    with Some Cons assms \<open>id_asset original = i\<close> show ?thesis
      by (simp add: applyBulkEdit_patched)
  qed
qed

lemma patched_in_collectUpdates:
  assumes "patchPresent form" "distinct (map id_asset as)" "a \<in> set as" "id_asset a \<in> set sel"
  shows "patched form a \<in> set (collectUpdates form as sel)"
  using assms(4)
proof (induction sel)
  case Nil
  then show ?case by simp
next
  case (Cons i ids)
  show ?case
  proof (cases "i = id_asset a")
    case True
    then have "find (\<lambda>b. id_asset b = i) as = Some a"
      using find_id_distinct [OF assms(2,3)] by simp
    with assms(1) show ?thesis
      by (simp add: applyBulkEdit_patched)
  next
    case False
    with Cons have "patched form a \<in> set (collectUpdates form as ids)" by simp
    then show ?thesis
      by (cases "find (\<lambda>a. id_asset a = i) as") (simp_all add: applyBulkEdit_patched)
  qed
qed

lemma updateMap_lookup:
  assumes "distinct (map id_asset us)"
  shows "map_of (rev (map (\<lambda>a. (id_asset a, a)) us)) k = Some u \<longleftrightarrow> u \<in> set us \<and> id_asset u = k"
proof -
  let ?xs = "rev (map (\<lambda>a. (id_asset a, a)) us)"
  have d: "distinct (map fst ?xs)"
    using assms by (simp add: rev_map [symmetric] comp_def)
  show ?thesis
  proof
    assume "map_of ?xs k = Some u"
    then have "(k, u) \<in> set ?xs" by (rule map_of_SomeD)
    then show "u \<in> set us \<and> id_asset u = k" by auto
  next
    assume "u \<in> set us \<and> id_asset u = k"
    then have "(k, u) \<in> set ?xs" by auto
    with d show "map_of ?xs k = Some u" by (rule map_of_is_SomeI)
  qed
qed

lemma handleBulkUpdateAssets_collect:
  assumes "patchPresent form" "distinct (map id_asset (assets st))" "distinct sel"
  shows "assets (handleBulkUpdateAssets (collectUpdates form (assets st) sel) st) =
           map (\<lambda>a. if id_asset a \<in> set sel then patched form a else a) (assets st)"
proof -
  let ?us = "collectUpdates form (assets st) sel"
  let ?m = "map_of (rev (map (\<lambda>a. (id_asset a, a)) ?us))"
  have d: "distinct (map id_asset ?us)"
    using assms(3) by (simp add: ids_collectUpdates [OF assms(1)])
  have "(case ?m (id_asset a) of Some u \<Rightarrow> u | None \<Rightarrow> a) =
          (if id_asset a \<in> set sel then patched form a else a)" if a: "a \<in> set (assets st)" for a
  proof (cases "id_asset a \<in> set sel")
    case True
    have "patched form a \<in> set ?us"
      by (rule patched_in_collectUpdates [OF assms(1,2) a True])
    then have "?m (id_asset a) = Some (patched form a)"
      using updateMap_lookup [OF d] by simp
    with True show ?thesis by simp
  next
    case False
    have "?m (id_asset a) = None"
    proof (rule ccontr)
      assume "?m (id_asset a) \<noteq> None"
      then obtain u where "?m (id_asset a) = Some u" by auto
      then have "u \<in> set ?us" "id_asset u = id_asset a"
        using updateMap_lookup [OF d] by simp_all
      then have "id_asset a \<in> set (map id_asset ?us)" by (metis image_eqI set_map)
      with False show False
        by (simp add: ids_collectUpdates [OF assms(1)])
    qed
    with False show ?thesis by simp
  qed
  then show ?thesis
    by (simp add: handleBulkUpdateAssets_def Let_def)
qed

lemma length_targets:
  assumes "distinct (map id_asset as)" "distinct sel"
  shows "length (filter (\<lambda>i. i \<in> id_asset ` set as) sel) =
         length (filter (\<lambda>a. id_asset a \<in> set sel) as)"
proof -
  have "length (filter (\<lambda>a. id_asset a \<in> set sel) as) =
        length (filter (\<lambda>i. i \<in> set sel) (map id_asset as))"
    by (simp add: filter_map comp_def)
  also have "\<dots> = card ({i. i \<in> set sel} \<inter> set (map id_asset as))"
    by (rule distinct_length_filter [OF assms(1)])
  also have "{i. i \<in> set sel} \<inter> set (map id_asset as) = {i. i \<in> id_asset ` set as} \<inter> set sel"
    by auto
  also have "card \<dots> = length (filter (\<lambda>i. i \<in> id_asset ` set as) sel)"
    by (rule distinct_length_filter [OF assms(2), symmetric])
  finally show ?thesis by simp
qed

text \<open>
  C6 (as amended). In a store with unique asset ids and for a selection without
  repetition: when the form has a status or a non-empty category, every selected asset
  that exists is replaced by its patched copy (only the fields the form has are
  overwritten), every other asset and the ledger stay as they are, selected ids that no
  asset carries are passed over, and the number reported is the number of selected
  assets that exist, whether or not their values differ from before. When the form has
  neither, nothing is changed and nothing is reported.
\<close>

theorem saveBulkEdit_effect:
  assumes "distinct (map id_asset (assets st))" "distinct sel"
  shows "(patchPresent form \<longrightarrow>
            assets (fst (saveBulkEdit form sel st)) =
              map (\<lambda>a. if id_asset a \<in> set sel then patched form a else a) (assets st) \<and>
            transactions (fst (saveBulkEdit form sel st)) = transactions st \<and>
            snd (saveBulkEdit form sel st) =
              (let n = length (filter (\<lambda>a. id_asset a \<in> set sel) (assets st))
               in if n = 0 then None else Some n)) \<and>
         (\<not> patchPresent form \<longrightarrow> saveBulkEdit form sel st = (st, None))"
proof (intro conjI impI)
  assume p: "patchPresent form"
  let ?us = "collectUpdates form (assets st) sel"
  have len: "length ?us = length (filter (\<lambda>a. id_asset a \<in> set sel) (assets st))"
    using ids_collectUpdates [OF p, of "assets st" sel] length_targets [OF assms]
    by (metis length_map)
  have emp: "(?us = []) = (filter (\<lambda>a. id_asset a \<in> set sel) (assets st) = [])"
    using len by (metis length_0_conv)
  show "snd (saveBulkEdit form sel st) =
          (let n = length (filter (\<lambda>a. id_asset a \<in> set sel) (assets st))
           in if n = 0 then None else Some n)"
    using len emp by (simp add: saveBulkEdit_def Let_def)
  show "transactions (fst (saveBulkEdit form sel st)) = transactions st"
    by (simp add: saveBulkEdit_def Let_def handleBulkUpdateAssets_def)
  show "assets (fst (saveBulkEdit form sel st)) =
          map (\<lambda>a. if id_asset a \<in> set sel then patched form a else a) (assets st)"
  proof (cases "?us = []")
    case True
    then have "filter (\<lambda>a. id_asset a \<in> set sel) (assets st) = []"
      using len by simp
    then have "\<forall>a \<in> set (assets st). id_asset a \<notin> set sel"
      by (simp add: filter_empty_conv)
    then have "map (\<lambda>a. if id_asset a \<in> set sel then patched form a else a) (assets st) = assets st"
      by (simp add: map_idI)
    with True show ?thesis by (simp add: saveBulkEdit_def)
  next
    case False
    then show ?thesis
      using handleBulkUpdateAssets_collect [OF p assms]
      by (simp add: saveBulkEdit_def Let_def)
  qed
next
  assume "\<not> patchPresent form"
  then show "saveBulkEdit form sel st = (st, None)"
    by (simp add: saveBulkEdit_def collectUpdates_absent)
qed

theorem saveBulkEdit_effect_witness:
  "(let form = \<lparr> status_form = Some MAINTENANCE, category_form = Some [] \<rparr>;
        sel = [str ''AST-001'', str ''AST-404'', str ''AST-004''];
        st = initialStore 0
    in distinct (map id_asset (assets st)) \<and> distinct sel \<and> patchPresent form \<and>
       snd (saveBulkEdit form sel st) = Some 2 \<and>
       map status (assets (fst (saveBulkEdit form sel st))) =
         [MAINTENANCE, BORROWED, MAINTENANCE, MAINTENANCE, AVAILABLE] \<and>
       map category (assets (fst (saveBulkEdit form sel st))) = map category (assets st)) \<and>
   (let form = \<lparr> status_form = None, category_form = Some [] \<rparr>;
        sel = [str ''AST-001'', str ''AST-404'', str ''AST-004''];
        st = initialStore 0
    in \<not> patchPresent form \<and> saveBulkEdit form sel st = (st, None))"
proof -
  let ?form = "\<lparr> status_form = Some MAINTENANCE, category_form = Some [] \<rparr>"
  let ?none = "\<lparr> status_form = None, category_form = Some [] \<rparr>"
  let ?sel = "[str ''AST-001'', str ''AST-404'', str ''AST-004'']"
  let ?st = "initialStore 0"
  have d1: "distinct (map id_asset (assets ?st))"
    by (simp add: mock_simps)
  have d2: "distinct ?sel"
    by (simp add: str_def)
  have p: "patchPresent ?form" and np: "\<not> patchPresent ?none"
    by (simp_all add: patchPresent_def)
  have n: "length (filter (\<lambda>a. id_asset a \<in> set ?sel) (assets ?st)) = 2"
    by (simp add: mock_simps)
  have m: "map (\<lambda>a. if id_asset a \<in> set ?sel then patched ?form a else a) (assets ?st) =
             [patched ?form (MOCK_ASSETS ! 0), MOCK_ASSETS ! 1, MOCK_ASSETS ! 2,
              patched ?form (MOCK_ASSETS ! 3), MOCK_ASSETS ! 4]"
    by (simp add: mock_simps)
  note T = saveBulkEdit_effect [OF d1 d2]
  from T [of ?form] p
  have a: "assets (fst (saveBulkEdit ?form ?sel ?st)) =
             [patched ?form (MOCK_ASSETS ! 0), MOCK_ASSETS ! 1, MOCK_ASSETS ! 2,
              patched ?form (MOCK_ASSETS ! 3), MOCK_ASSETS ! 4]"
    and r: "snd (saveBulkEdit ?form ?sel ?st) = Some 2"
    unfolding m n by (simp_all add: Let_def)
  have s: "map status (assets (fst (saveBulkEdit ?form ?sel ?st))) =
             [MAINTENANCE, BORROWED, MAINTENANCE, MAINTENANCE, AVAILABLE]"
    unfolding a by (simp add: patched_def MOCK_ASSETS_def)
  have c: "map category (assets (fst (saveBulkEdit ?form ?sel ?st))) = map category (assets ?st)"
    unfolding a by (simp add: patched_def initialStore_def MOCK_ASSETS_def)
  from T [of ?none] np have z: "saveBulkEdit ?none ?sel ?st = (?st, None)"
    by simp
  from d1 d2 p np r s c z show ?thesis
    unfolding Let_def by blast
qed

text \<open>
  C6 as stated fails: an asset that already has the status of the patch is reported as
  changed although the store is the same as before.
\<close>

theorem bulk_edit_counts_unchanged_asset:
  "status (assets (initialStore 0) ! 2) = MAINTENANCE \<and>
   saveBulkEdit \<lparr> status_form = Some MAINTENANCE, category_form = Some [] \<rparr> [str ''AST-003'']
     (initialStore 0) = (initialStore 0, Some 1)"
  by code_simp

section \<open>CSV import\<close>

lemma rowFields_Nil: "rowFields [] = [[]]"
  by (simp add: rowFields_def trim_def stripQuotes_def)

lemma nameField_blank:
  assumes "trim l = []"
  shows "nameField l = []"
  unfolding nameField_def assms rowFields_Nil by (simp add: element_def orEmpty_def)

lemma importLines_closed:
  "importLines env acc ls =
     acc @ map (\<lambda>(k, l). importedAsset env k (rowFields (trim l)))
               (enumerate (length acc) (filter (\<lambda>l. nameField l \<noteq> []) ls))"
proof (induction ls arbitrary: acc)
  case Nil
  show ?case by simp
next
  case (Cons l ls)
  show ?case
  proof (cases "nameField l = []")
    case True
    then have "importLines env acc (l # ls) = importLines env acc ls"
      by (simp add: Let_def nameField_def)
    with True Cons [of acc] show ?thesis by simp
  next
    case False
    then have "trim l \<noteq> []"
      using nameField_blank by blast
    with False have "importLines env acc (l # ls) =
        importLines env (acc @ [importedAsset env (length acc) (rowFields (trim l))]) ls"
      by (simp add: Let_def nameField_def)
    with False Cons [of "acc @ [importedAsset env (length acc) (rowFields (trim l))]"]
    show ?thesis by simp
  qed
qed

lemma example_rows:
  "drop 1 (split 0x0A exampleCSV) =
     [str ''Drone X,Drone,V2,SN1'', str '',BadRow,,'', str ''Tablet Y,Tablet,T1,SN2'']"
  by code_simp

lemmas csv_simps = nameField_def rowFields_def trim_def isWhiteSpace_def stripQuotes_def
  element_def orEmpty_def orDefault_def str_def

lemma example_names:
  "nameField (str ''Drone X,Drone,V2,SN1'') = str ''Drone X''"
  "nameField (str '',BadRow,,'') = []"
  "nameField (str ''Tablet Y,Tablet,T1,SN2'') = str ''Tablet Y''"
  by (simp_all add: csv_simps)

lemma parseCSV_closed:
  "parseCSV env content =
     map (\<lambda>(k, l). importedAsset env k (rowFields (trim l)))
         (enumerate 0 (filter (\<lambda>l. nameField l \<noteq> []) (drop 1 (split 0x0A content))))"
  by (simp add: parseCSV_def importLines_closed)

lemma name_importedAsset: "name (importedAsset env k (rowFields (trim l))) = nameField l"
  by (simp add: importedAsset_def nameField_def Let_def)

lemma map_snd_enumerate_comp: "map (\<lambda>p. f (snd p)) (enumerate n xs) = map f xs"
  by (induction xs arbitrary: n) simp_all

lemma names_parseCSV:
  "map name (parseCSV env content) =
     filter (\<lambda>n. n \<noteq> []) (map nameField (drop 1 (split 0x0A content)))"
proof -
  let ?ls = "filter (\<lambda>l. nameField l \<noteq> []) (drop 1 (split 0x0A content))"
  have "map name (parseCSV env content) = map (\<lambda>p. nameField (snd p)) (enumerate 0 ?ls)"
    by (simp add: parseCSV_closed case_prod_unfold name_importedAsset)
  also have "\<dots> = map nameField ?ls"
    by (rule map_snd_enumerate_comp)
  finally show ?thesis
    by (simp add: filter_map comp_def)
qed

text \<open>
  C7 (as amended). The first line of the upload is skipped as the header. The lines
  after it whose name field is not empty give one new asset each, in order; every
  other line (blank,
  or with an empty name) is passed over and the rest is still imported. A new asset has
  the name of its line, an id generated for it (\<open>AST-\<close> and a random number, not taken
  from the upload and not compared with any other id), status Available, no
  holder, the date of the import as purchase date and the placeholder image. The
  accepted assets are appended to the store and their number is reported; with none
  accepted the store stays as it is. The three rows of the specification give the two
  assets Drone X and Tablet Y.
\<close>

theorem csv_import_rows:
  "parseCSV env content =
     map (\<lambda>(k, l). importedAsset env k (rowFields (trim l)))
         (enumerate 0 (filter (\<lambda>l. nameField l \<noteq> []) (drop 1 (split 0x0A content)))) \<and>
   handleFileUpload env content st =
     (if parseCSV env content = [] then (st, None)
      else (st\<lparr> assets := assets st @ parseCSV env content \<rparr>,
            Some (length (parseCSV env content)))) \<and>
   (let a = importedAsset env k (rowFields (trim l))
    in name a = nameField l \<and>
       id_asset a = str ''AST-'' @ showNat (randomId env k) \<and>
       status a = AVAILABLE \<and> currentHolder a = None \<and>
       purchaseDate a = isoDate env k \<and>
       imageUrl a = str ''https://picsum.photos/400/300?random='' @ randomImg env k) \<and>
   map name (parseCSV env exampleCSV) = [str ''Drone X'', str ''Tablet Y'']"
proof (intro conjI)
  show "parseCSV env content =
     map (\<lambda>(k, l). importedAsset env k (rowFields (trim l)))
         (enumerate 0 (filter (\<lambda>l. nameField l \<noteq> []) (drop 1 (split 0x0A content))))"
    by (rule parseCSV_closed)
  show "handleFileUpload env content st =
     (if parseCSV env content = [] then (st, None)
      else (st\<lparr> assets := assets st @ parseCSV env content \<rparr>,
            Some (length (parseCSV env content))))"
    by (simp add: handleFileUpload_def handleBulkAddAssets_def Let_def)
  show "let a = importedAsset env k (rowFields (trim l))
    in name a = nameField l \<and>
       id_asset a = str ''AST-'' @ showNat (randomId env k) \<and>
       status a = AVAILABLE \<and> currentHolder a = None \<and>
       purchaseDate a = isoDate env k \<and>
       imageUrl a = str ''https://picsum.photos/400/300?random='' @ randomImg env k"
    unfolding Let_def name_importedAsset by (simp add: importedAsset_def Let_def)
  show "map name (parseCSV env exampleCSV) = [str ''Drone X'', str ''Tablet Y'']"
    unfolding names_parseCSV example_rows by (simp add: example_names) (simp add: str_def)
qed

theorem csv_import_rows_witness:
  "map name (assets (fst (handleFileUpload exampleEnv exampleCSV (initialStore 0)))) =
     map name MOCK_ASSETS @ [str ''Drone X'', str ''Tablet Y''] \<and>
   snd (handleFileUpload exampleEnv exampleCSV (initialStore 0)) = Some 2"
proof -
  note T = csv_import_rows [of exampleEnv exampleCSV "initialStore 0"]
  from T have n: "map name (parseCSV exampleEnv exampleCSV) = [str ''Drone X'', str ''Tablet Y'']"
    by blast
  then have len: "length (parseCSV exampleEnv exampleCSV) = 2"
    by (metis length_map length_Cons list.size(3) One_nat_def Suc_1)
  then have ne: "parseCSV exampleEnv exampleCSV \<noteq> []"
    by auto
  from T ne have u: "handleFileUpload exampleEnv exampleCSV (initialStore 0) =
      ((initialStore 0)\<lparr> assets := assets (initialStore 0) @ parseCSV exampleEnv exampleCSV \<rparr>,
       Some (length (parseCSV exampleEnv exampleCSV)))"
    by simp
  show ?thesis
    unfolding u by (simp add: n len initialStore_def)
qed

text \<open>
  C7 as stated fails in the freshness of the ids: nothing compares the id drawn for a
  row with any other id, and when the random numbers repeat the two assets imported
  from the rows of the specification carry the same id.
\<close>

theorem imported_ids_collide:
  "map id_asset (parseCSV repeatingEnv exampleCSV) = [str ''AST-7'', str ''AST-7'']"
proof -
  have "filter (\<lambda>l. nameField l \<noteq> []) (drop 1 (split 0x0A exampleCSV)) =
          [str ''Drone X,Drone,V2,SN1'', str ''Tablet Y,Tablet,T1,SN2'']"
    unfolding example_rows by (simp add: example_names) (simp add: str_def)
  then have "parseCSV repeatingEnv exampleCSV =
      [importedAsset repeatingEnv 0 (rowFields (trim (str ''Drone X,Drone,V2,SN1''))),
       importedAsset repeatingEnv 1 (rowFields (trim (str ''Tablet Y,Tablet,T1,SN2'')))]"
    unfolding parseCSV_closed by simp
  moreover have "showNat 7 = str ''7''"
    by (simp add: showNat.simps [of 7] str_def)
  ultimately show ?thesis
    by (simp add: importedAsset_def Let_def repeatingEnv_def) (simp add: str_def)
qed

section \<open>CSV export followed by import\<close>

lemma split_nonempty: "split c s \<noteq> []"
  by (induction s) (auto split: list.splits)












lemma newline_str [simp]: "str ''\<newline>'' = [0x0A]"
  by (simp add: str_def)

lemma commaFree_quoted [simp]: "0x2C \<notin> set (quoted s) \<longleftrightarrow> 0x2C \<notin> set s"
  by (simp add: quoted_def)
















end
